theory Spec2Isabelle
  imports Complex_Main "HOL-Library.Sublist"
begin

section \<open>The training orchestrator of rlkit/core/rl_algorithm.py\<close>

text \<open>
  The class \<^verbatim>\<open>RLAlgorithm\<close> drives an environment, an exploration policy, a replay
  buffer and a learner through epochs of data collection, training and evaluation.
  Its attributes are the record \<open>rl\<close>. Its collaborators (environment, policy, replay
  buffer, learner, logger, timer, MPI and the device module) are not part of the file:
  every call made on one of these objects is appended to the history \<open>trace\<close>, and
  what a collaborator answers is a function of the history so far, taken from the
  record \<open>collab\<close>. A method that can raise returns \<open>(Inl exception, state)\<close>: the state
  reached when the exception leaves the method is kept, as the object is in Python.
  Observations, actions, info dictionaries and callables are opaque values of type \<open>'v\<close>.
\<close>

subsection \<open>Exceptions, devices, transitions and paths\<close>

datatype exc =
  AssertionError | TypeError | NotImplementedError | ZeroDivisionError | AttributeError
  | UpdateError

datatype device = Cpu | Cuda int

text \<open>
  A transition as \<^verbatim>\<open>_handle_step\<close> receives it. The one-element arrays
  \<^verbatim>\<open>np.array([reward])\<close> and \<^verbatim>\<open>np.array([terminal])\<close> are represented by their element;
  rewards are real numbers (their values decide nothing in this file).
\<close>

record 'v transition =
  observation :: 'v
  action :: 'v
  reward :: real
  next_observation :: 'v
  terminal :: bool
  agent_info :: 'v
  env_info :: 'v

record 'v path =
  observations :: "'v list"
  actions :: "'v list"
  rewards :: "real list"
  next_observations :: "'v list"
  terminals :: "bool list"
  agent_infos :: "'v list"
  env_infos :: "'v list"

text \<open>
  Modelled from the spec: \<^verbatim>\<open>PathBuilder\<close> (rlkit/data_management/path_builder.py) is
  the Trajectory Builder of section 4.1: \<^verbatim>\<open>add_all\<close> appends one transition,
  \<^verbatim>\<open>len\<close> is the number of transitions accumulated, and \<^verbatim>\<open>get_all_stacked\<close> stacks
  every field across the accumulated transitions into parallel sequences. The builder is
  the list of its transitions; \<^verbatim>\<open>PathBuilder()\<close> is the empty list.
\<close>

definition get_all_stacked :: "'v transition list \<Rightarrow> 'v path" where
  "get_all_stacked ts =
     \<lparr>observations = map observation ts, actions = map action ts,
      rewards = map reward ts, next_observations = map next_observation ts,
      terminals = map terminal ts, agent_infos = map agent_info ts,
      env_infos = map env_info ts\<rparr>"

subsection \<open>Calls on the collaborators\<close>

datatype 'v event =
    SetNumStepsTotal int
  | GetAction 'v
  | PolicyReset
  | Render
  | RenderClose
  | EnvStep 'v
  | EnvReset
  | EnvTrain
  | EnvEval
  | AddSample "'v transition"
  | TerminateEpisode
  | NumStepsCanSample
  | SetDevice device
  | To device
  | TrainingMode bool
  | DoTraining
  | SaveExtraData int "string list"
  | SaveItrParams int "string list"
  | Log string
  | PushPrefix int
  | PopPrefix
  | Print string
  | RecordTabular string
  | UpdateHeader
  | DumpTabular
  | GetTableKeySet
  | ObtainSamples
  | LogDiagnostics
  | GetDiagnostics
  | GtReset
  | Stamp string
  | GetTimes
  | SeedEvalTime
  | PostEpochFunc 'v int

text \<open>
  What the collaborators answer, each as a function of the history of calls before the
  one being answered.
  \<^item> \<open>mpi_rank\<close>: \<open>None\<close> when \<^verbatim>\<open>from mpi4py import MPI\<close> failed (\<^verbatim>\<open>MPI = None\<close>),
    otherwise the value of \<^verbatim>\<open>MPI.COMM_WORLD.Get_rank()\<close>.
  \<^item> \<open>get_mode\<close>: the value of \<^verbatim>\<open>ptu.get_mode()\<close>, \<open>None\<close> for Python's \<^verbatim>\<open>None\<close>.
  \<^item> \<open>handle_step_takes_mask\<close>: whether the \<^verbatim>\<open>_handle_step\<close> of the running class
    accepts the keyword \<^verbatim>\<open>mask\<close> (see \<open>sample_step\<close>).
  \<^item> \<open>do_training\<close>: the abstract \<^verbatim>\<open>_do_training\<close>; given the history and the attributes
    \<^verbatim>\<open>need_to_update_eval_statistics\<close> and \<^verbatim>\<open>eval_statistics\<close> (its keys), it returns
    their new values and the exception it raises, if any.
  \<^item> \<open>has_train\<close>, \<open>has_eval\<close>, \<open>has_log_diagnostics\<close>: the \<^verbatim>\<open>hasattr\<close> tests;
    \<open>get_diagnostics\<close> is \<open>None\<close> when the evaluation environment has no such method.
  \<^item> \<open>get_generic_path_information\<close>: the keys of the statistics that
    \<^verbatim>\<open>eval_util.get_generic_path_information\<close> returns for a \<^verbatim>\<open>stat_prefix\<close>.
  \<^item> \<open>times_itrs_titles\<close>: \<^verbatim>\<open>key.title()\<close> for the keys of
    \<^verbatim>\<open>gt.get_times().stamps.itrs\<close>; its lookups are taken to succeed.
\<close>

record 'v collab =
  mpi_rank :: "int option"
  get_mode :: "string option"
  get_action :: "'v event list \<Rightarrow> 'v \<Rightarrow> 'v \<times> 'v"
  env_step :: "'v event list \<Rightarrow> 'v \<Rightarrow> 'v \<times> real \<times> bool \<times> 'v"
  env_reset :: "'v event list \<Rightarrow> 'v"
  num_steps_can_sample :: "'v event list \<Rightarrow> int"
  handle_step_takes_mask :: bool
  do_training :: "'v event list \<Rightarrow> bool \<Rightarrow> string list \<Rightarrow> (bool \<times> string list) \<times> exc option"
  has_train :: bool
  has_eval :: bool
  has_log_diagnostics :: bool
  get_diagnostics :: "('v event list \<Rightarrow> string list) option"
  get_generic_path_information :: "'v event list \<Rightarrow> string \<Rightarrow> string list"
  times_itrs_titles :: "'v event list \<Rightarrow> string list"

subsection \<open>The attributes of the orchestrator\<close>

text \<open>
  The attributes set by \<^verbatim>\<open>__init__\<close> and read by the methods below, and the history.
  \<^verbatim>\<open>batch_size\<close>, \<^verbatim>\<open>discount\<close>, \<^verbatim>\<open>replay_buffer_size\<close> and \<^verbatim>\<open>num_steps_per_eval\<close> are
  only handed on to collaborators and the wall-clock attributes \<^verbatim>\<open>_epoch_start_time\<close>
  and \<^verbatim>\<open>_algo_start_time\<close> only feed log lines; they are left out.
  \<open>gpu_id\<close> is \<open>None\<close> while the attribute does not exist.
\<close>

record 'v rl =
  num_epochs :: int
  num_env_steps_per_epoch :: int
  num_updates_per_train_call :: int
  max_path_length :: int
  reward_scale :: real
  render :: bool
  collection_mode :: string
  save_replay_buffer :: bool
  save_algorithm :: bool
  save_environment :: bool
  min_num_steps_before_training :: int
  eval_statistics :: "string list"
  need_to_update_eval_statistics :: bool
  n_env_steps_total :: int
  n_train_steps_total :: int
  n_rollouts_total :: int
  do_train_time :: int
  old_table_keys :: "string set option"
  current_path_builder :: "'v transition list"
  exploration_paths :: "'v path list"
  post_epoch_funcs :: "'v list"
  save_extra_data_interval :: int
  gpu_id :: "int option"
  num_epochs_per_eval :: int
  num_epochs_per_param_save :: int
  trace :: "'v event list"

definition emit :: "'v event \<Rightarrow> 'v rl \<Rightarrow> 'v rl" where
  "emit e s = s\<lparr>trace := trace s @ [e]\<rparr>"

definition emit_all :: "'v event list \<Rightarrow> 'v rl \<Rightarrow> 'v rl" where
  "emit_all es s = s\<lparr>trace := trace s @ es\<rparr>"

text \<open>Sequencing: an exception ends the method with the state reached.\<close>

definition and_then ::
  "(exc + 'a) \<times> 's \<Rightarrow> ('a \<Rightarrow> 's \<Rightarrow> (exc + 'b) \<times> 's) \<Rightarrow> (exc + 'b) \<times> 's" where
  "and_then r f = (case r of (Inl e, s) \<Rightarrow> (Inl e, s) | (Inr x, s) \<Rightarrow> f x s)"

text \<open>Python's \<^verbatim>\<open>a % b\<close> on integers: the sign of the divisor, an exception for 0.\<close>

definition py_mod :: "int \<Rightarrow> int \<Rightarrow> exc + int" where
  "py_mod a b = (if b = 0 then Inl ZeroDivisionError else Inr (a mod b))"

text \<open>The truth value of \<^verbatim>\<open>ptu.get_mode()\<close>: \<^verbatim>\<open>None\<close> and the empty string are false.\<close>

definition truthy :: "string option \<Rightarrow> bool" where
  "truthy m = (case m of None \<Rightarrow> False | Some x \<Rightarrow> x \<noteq> [])"

subsection \<open>Construction\<close>

text \<open>The keyword arguments of \<^verbatim>\<open>__init__\<close> that the methods below depend on.\<close>

record args =
  arg_num_epochs :: int
  arg_num_steps_per_epoch :: int
  arg_num_updates_per_env_step :: int
  arg_num_updates_per_epoch :: "int option"
  arg_max_path_length :: int
  arg_reward_scale :: real
  arg_min_num_steps_before_training :: "int option"
  arg_render :: bool
  arg_save_replay_buffer :: bool
  arg_save_algorithm :: bool
  arg_save_environment :: bool
  arg_collection_mode :: string
  arg_save_extra_data_interval :: int
  arg_num_gpus :: int
  arg_num_epochs_per_eval :: int
  arg_num_epochs_per_param_save :: int

definition default_args :: args where
  "default_args =
     \<lparr>arg_num_epochs = 100, arg_num_steps_per_epoch = 10000,
      arg_num_updates_per_env_step = 1, arg_num_updates_per_epoch = None,
      arg_max_path_length = 1000, arg_reward_scale = 1,
      arg_min_num_steps_before_training = None, arg_render = False,
      arg_save_replay_buffer = False, arg_save_algorithm = False,
      arg_save_environment = True, arg_collection_mode = ''online'',
      arg_save_extra_data_interval = 100000, arg_num_gpus = 1,
      arg_num_epochs_per_eval = 10, arg_num_epochs_per_param_save = 100\<rparr>"

text \<open>
  \<^verbatim>\<open>__init__\<close>, lines 84 to 152, in the order of the source: the two assertions on
  the collection mode, the attributes, \<^verbatim>\<open>gpu_id = rank % num_gpus\<close> when
  \<^verbatim>\<open>MPI and ptu.get_mode()\<close>, and the assertion
  \<^verbatim>\<open>num_epochs_per_param_save % num_epochs_per_eval == 0\<close>. The update count of line 96
  is the value that the assertion of line 86 has found not to be \<^verbatim>\<open>None\<close>.
  The collaborators that lines 88 to 132 build or read (the copy of the environment, the
  evaluation sampler, the replay buffer, the spaces of the environment) are taken to be
  built without an exception.
\<close>

definition init :: "'v collab \<Rightarrow> args \<Rightarrow> exc + 'v rl" where
  "init K a =
     (if arg_collection_mode a \<notin> {''online'', ''batch''} then Inl AssertionError
      else
        case (if arg_collection_mode a = ''batch'' then arg_num_updates_per_epoch a
              else Some (arg_num_updates_per_env_step a)) of
          None \<Rightarrow> Inl AssertionError
        | Some updates \<Rightarrow>
           (case (case mpi_rank K of
                    None \<Rightarrow> Inr None
                  | Some rank \<Rightarrow>
                      if truthy (get_mode K)
                      then map_sum id Some (py_mod rank (arg_num_gpus a))
                      else Inr None) of
              Inl e \<Rightarrow> Inl e
            | Inr gid \<Rightarrow>
               (case py_mod (arg_num_epochs_per_param_save a) (arg_num_epochs_per_eval a) of
                  Inl e \<Rightarrow> Inl e
                | Inr r \<Rightarrow>
                    if r \<noteq> 0 then Inl AssertionError
                    else Inr
                      \<lparr>num_epochs = arg_num_epochs a,
                       num_env_steps_per_epoch = arg_num_steps_per_epoch a,
                       num_updates_per_train_call = updates,
                       max_path_length = arg_max_path_length a,
                       reward_scale = arg_reward_scale a,
                       render = arg_render a,
                       collection_mode = arg_collection_mode a,
                       save_replay_buffer = arg_save_replay_buffer a,
                       save_algorithm = arg_save_algorithm a,
                       save_environment = arg_save_environment a,
                       min_num_steps_before_training =
                         (case arg_min_num_steps_before_training a of
                            None \<Rightarrow> arg_num_steps_per_epoch a
                          | Some m \<Rightarrow> m),
                       eval_statistics = [],
                       need_to_update_eval_statistics = True,
                       n_env_steps_total = 0,
                       n_train_steps_total = 0,
                       n_rollouts_total = 0,
                       do_train_time = 0,
                       old_table_keys = None,
                       current_path_builder = [],
                       exploration_paths = [],
                       post_epoch_funcs = [],
                       save_extra_data_interval = arg_save_extra_data_interval a,
                       gpu_id = gid,
                       num_epochs_per_eval = arg_num_epochs_per_eval a,
                       num_epochs_per_param_save = arg_num_epochs_per_param_save a,
                       trace = []\<rparr>)))"

subsection \<open>Rollouts and environment steps\<close>

text \<open>\<^verbatim>\<open>_can_train\<close> (lines 380 to 384) and \<^verbatim>\<open>_can_evaluate\<close> (lines 365 to 378).\<close>

definition can_train :: "'v collab \<Rightarrow> 'v rl \<Rightarrow> bool \<times> 'v rl" where
  "can_train K s =
     (num_steps_can_sample K (trace s) \<ge> min_num_steps_before_training s,
      emit NumStepsCanSample s)"

definition can_evaluate :: "'v rl \<Rightarrow> bool" where
  "can_evaluate s \<longleftrightarrow>
     length (exploration_paths s) > 0 \<and> \<not> need_to_update_eval_statistics s"

text \<open>\<^verbatim>\<open>_get_action_and_info\<close> (lines 386 to 395).\<close>

definition get_action_and_info :: "'v collab \<Rightarrow> 'v \<Rightarrow> 'v rl \<Rightarrow> ('v \<times> 'v) \<times> 'v rl" where
  "get_action_and_info K ob s =
     (let s1 = emit (SetNumStepsTotal (n_env_steps_total s)) s
      in (get_action K (trace s1) ob, emit (GetAction ob) s1))"

text \<open>\<^verbatim>\<open>_start_new_rollout\<close> (lines 413 to 415): the result is what \<^verbatim>\<open>reset()\<close> returns.\<close>

definition start_new_rollout :: "'v collab \<Rightarrow> 'v rl \<Rightarrow> 'v \<times> 'v rl" where
  "start_new_rollout K s =
     (let s1 = emit PolicyReset s in (env_reset K (trace s1), emit EnvReset s1))"

text \<open>\<^verbatim>\<open>_handle_step\<close> as the class defines it (lines 451 to 485).\<close>

definition handle_step :: "'v transition \<Rightarrow> 'v rl \<Rightarrow> 'v rl" where
  "handle_step t s =
     emit (AddSample t) (s\<lparr>current_path_builder := current_path_builder s @ [t]\<rparr>)"

text \<open>\<^verbatim>\<open>_handle_rollout_ending\<close> (lines 487 to 499).\<close>

definition handle_rollout_ending :: "'v rl \<Rightarrow> 'v rl" where
  "handle_rollout_ending s =
     (let s1 = emit TerminateEpisode s;
          s2 = s1\<lparr>n_rollouts_total := n_rollouts_total s1 + 1\<rparr>
      in if length (current_path_builder s2) > 0
         then s2\<lparr>exploration_paths :=
                   exploration_paths s2 @ [get_all_stacked (current_path_builder s2)],
                 current_path_builder := []\<rparr>
         else s2)"

text \<open>
  \<^verbatim>\<open>_take_step_in_env\<close>, lines 225 to 260: the action, the optional rendering, the
  step of the training environment, the step counter, the scaled reward and the call
  \<^verbatim>\<open>self._handle_step(observation, action, reward, next_ob, terminal, agent_info=...,
  env_info=..., mask=get_masks(...))\<close>. The \<^verbatim>\<open>_handle_step\<close> of lines 451 to 485 has no
  parameter \<^verbatim>\<open>mask\<close>: with it the call raises \<^verbatim>\<open>TypeError\<close>, and a class that runs
  this method overrides \<^verbatim>\<open>_handle_step\<close> with one that takes the keyword.
  Modelled from the spec: that override (not in this file) records the transition into
  the trajectory builder and the replay buffer, as section 4.3 says and as the body of
  lines 466 to 485 does; the mask is not stored by it.
  The result is \<^verbatim>\<open>next_ob\<close> and \<^verbatim>\<open>terminal\<close>, which lines 263 to 268 go on to use.
\<close>

definition sample_step ::
  "'v collab \<Rightarrow> 'v \<Rightarrow> 'v rl \<Rightarrow> (exc + 'v \<times> bool) \<times> 'v rl" where
  "sample_step K ob s =
     (let ((act, a_info), s1) = get_action_and_info K ob s;
          s2 = (if render s1 then emit Render s1 else s1);
          (next_ob, raw_reward, term, e_info) = env_step K (trace s2) act;
          s3 = emit (EnvStep act) s2;
          s4 = s3\<lparr>n_env_steps_total := n_env_steps_total s3 + 1\<rparr>;
          t = \<lparr>observation = ob, action = act, reward = raw_reward * reward_scale s4,
               next_observation = next_ob, terminal = term, agent_info = a_info,
               env_info = e_info\<rparr>
      in if handle_step_takes_mask K then (Inr (next_ob, term), handle_step t s4)
         else (Inl TypeError, s4))"

text \<open>\<^verbatim>\<open>_take_step_in_env\<close> as a whole: \<open>sample_step\<close>, then lines 263 to 268.\<close>

definition take_step_in_env :: "'v collab \<Rightarrow> 'v \<Rightarrow> 'v rl \<Rightarrow> (exc + 'v) \<times> 'v rl" where
  "take_step_in_env K ob s =
     and_then (sample_step K ob s) (\<lambda>(next_ob, term) s5.
       if term \<or> int (length (current_path_builder s5)) \<ge> max_path_length s5
       then (let (new_observation, s6) = start_new_rollout K (handle_rollout_ending s5)
             in (Inr new_observation, s6))
       else (Inr next_ob, s5))"

subsection \<open>The training phase\<close>

text \<open>One call of \<^verbatim>\<open>self._do_training()\<close>.\<close>

definition do_training_call :: "'v collab \<Rightarrow> 'v rl \<Rightarrow> (exc + unit) \<times> 'v rl" where
  "do_training_call K s =
     (let ((need, stats), raised) =
            do_training K (trace s) (need_to_update_eval_statistics s) (eval_statistics s);
          s1 = emit DoTraining
                 (s\<lparr>need_to_update_eval_statistics := need, eval_statistics := stats\<rparr>)
      in case raised of None \<Rightarrow> (Inr (), s1) | Some e \<Rightarrow> (Inl e, s1))"

text \<open>
  The loop of lines 281 to 284, \<^verbatim>\<open>for i in range(self.num_updates_per_train_call)\<close>,
  by the number of iterations left.
\<close>

fun update_burst :: "'v collab \<Rightarrow> nat \<Rightarrow> 'v rl \<Rightarrow> (exc + unit) \<times> 'v rl" where
  "update_burst K 0 s = (Inr (), s)"
| "update_burst K (Suc n) s =
     and_then (do_training_call K s) (\<lambda>_ s1.
       update_burst K n (s1\<lparr>n_train_steps_total := n_train_steps_total s1 + 1\<rparr>))"

text \<open>
  \<^verbatim>\<open>_try_to_train\<close> (lines 270 to 288) in its three parts: lines 272 to 274 move the
  components to the accelerator of this rank, lines 278 to 285 train when
  \<^verbatim>\<open>_can_train()\<close> holds, lines 286 to 288 move the components back. Reading
  \<^verbatim>\<open>self.gpu_id\<close> raises \<^verbatim>\<open>AttributeError\<close> when \<^verbatim>\<open>__init__\<close> has not set it. There
  is no \<^verbatim>\<open>try\<close> in the method: an exception of \<^verbatim>\<open>_do_training\<close> leaves it at once.
\<close>

definition acquire_device :: "'v collab \<Rightarrow> 'v rl \<Rightarrow> (exc + unit) \<times> 'v rl" where
  "acquire_device K s =
     (if get_mode K = Some ''gpu_opt''
      then (case gpu_id s of
              None \<Rightarrow> (Inl AttributeError, s)
            | Some g \<Rightarrow> (Inr (), emit (To (Cuda g)) (emit (SetDevice (Cuda g)) s)))
      else (Inr (), s))"

definition release_device :: "'v collab \<Rightarrow> 'v rl \<Rightarrow> (exc + unit) \<times> 'v rl" where
  "release_device K s =
     (if get_mode K = Some ''gpu_opt''
      then (Inr (), emit (To Cpu) (emit (SetDevice Cpu) s))
      else (Inr (), s))"

definition try_to_train :: "'v collab \<Rightarrow> 'v rl \<Rightarrow> (exc + unit) \<times> 'v rl" where
  "try_to_train K s =
     and_then (acquire_device K s) (\<lambda>_ s1.
       let (ready, s2) = can_train K s1
       in and_then
            (if ready
             then and_then
                    (update_burst K (nat (num_updates_per_train_call s2))
                       (emit (TrainingMode True) s2))
                    (\<lambda>_ s3. (Inr (), emit (TrainingMode False) s3))
             else (Inr (), s2))
            (\<lambda>_ s4. release_device K s4))"

text \<open>
  Where \<^verbatim>\<open>self.to\<close> last put the trainable components; the CPU before any move.
\<close>

fun device_after :: "'v event \<Rightarrow> device \<Rightarrow> device" where
  "device_after (To d') d = d'"
| "device_after _ d = d"

definition resident :: "'v event list \<Rightarrow> device" where
  "resident tr = fold device_after tr Cpu"

subsection \<open>The evaluation phase\<close>

text \<open>
  \<^verbatim>\<open>get_epoch_snapshot\<close> (lines 501 to 509) and \<^verbatim>\<open>get_extra_data_to_save\<close>
  (lines 511 to 529): the keys of the dictionary that is saved.
\<close>

definition get_epoch_snapshot :: "int \<Rightarrow> 'v rl \<Rightarrow> string list" where
  "get_epoch_snapshot epoch s =
     [''epoch'', ''exploration_policy'', ''eval_policy'']
     @ (if save_environment s then [''env''] else [])"

definition get_extra_data_to_save :: "int \<Rightarrow> 'v rl \<Rightarrow> string list \<times> 'v rl" where
  "get_extra_data_to_save epoch s =
     (let s1 = (if render s then emit RenderClose s else s)
      in ([''epoch'']
          @ (if save_environment s1 then [''env''] else [])
          @ (if save_replay_buffer s1 then [''replay_buffer''] else [])
          @ (if save_algorithm s1 then [''algorithm''] else []), s1))"

text \<open>
  Lines 291 to 299 of \<^verbatim>\<open>_try_to_eval\<close>, what rank 0 persists: the extra data of
  lines 292 and 293, then the numbered snapshot of lines 295 to 299.
  \<^verbatim>\<open>MPI and MPI.COMM_WORLD.Get_rank() == 0\<close> holds when \<open>mpi_rank\<close> is \<open>Some 0\<close>.
\<close>

definition save_extra_data :: "int \<Rightarrow> 'v rl \<Rightarrow> (exc + unit) \<times> 'v rl" where
  "save_extra_data epoch s =
     and_then (py_mod epoch (save_extra_data_interval s), s) (\<lambda>r s.
       if r = 0
       then (let (d, s1) = get_extra_data_to_save epoch s
             in (Inr (), emit (SaveExtraData epoch d) s1))
       else (Inr (), s))"

definition save_itr_params :: "int \<Rightarrow> 'v rl \<Rightarrow> (exc + unit) \<times> 'v rl" where
  "save_itr_params epoch s =
     and_then (py_mod epoch (num_epochs_per_param_save s), s) (\<lambda>r s.
       if r = 0
       then (Inr (),
             emit (Print ''Itr param saved!'')
               (emit (SaveItrParams epoch (get_epoch_snapshot epoch s))
                  (emit (Print ''Attemping itr param save...'') s)))
       else (Inr (), s))"

definition save_checkpoints :: "'v collab \<Rightarrow> int \<Rightarrow> 'v rl \<Rightarrow> (exc + unit) \<times> 'v rl" where
  "save_checkpoints K epoch s =
     (if mpi_rank K = Some 0
      then and_then (save_extra_data epoch s) (\<lambda>_ s1. save_itr_params epoch s1)
      else (Inr (), s))"

text \<open>
  \<^verbatim>\<open>OrderedDict.update\<close> on the keys: a new key goes to the end, a known one stays.
\<close>

definition od_update :: "string list \<Rightarrow> string list \<Rightarrow> string list" where
  "od_update d ks = fold (\<lambda>k acc. if k \<in> set acc then acc else acc @ [k]) ks d"

definition record_tabular :: "string \<Rightarrow> 'v rl \<Rightarrow> 'v rl" where
  "record_tabular key s = emit (RecordTabular key) s"

text \<open>
  \<^verbatim>\<open>evaluate\<close> (lines 540 to 574). The two branches on
  \<^verbatim>\<open>hasattr(self.env.unwrapped, "num_blocks")\<close> differ only in the argument
  \<^verbatim>\<open>num_blocks\<close> handed to \<^verbatim>\<open>eval_util\<close>. \<^verbatim>\<open>if eval_paths\<close> holds for a non-empty list.
\<close>

definition evaluate :: "'v collab \<Rightarrow> int \<Rightarrow> 'v path list option \<Rightarrow> 'v rl \<Rightarrow> 'v rl" where
  "evaluate K epoch eval_paths s =
     (let st0 = od_update [] (eval_statistics s);
          s1 = emit (Log ''Collecting samples for evaluation'') s;
          s2 = (case eval_paths of Some (p # ps) \<Rightarrow> s1 | _ \<Rightarrow> emit ObtainSamples s1);
          st1 = od_update st0 (get_generic_path_information K (trace s2) ''Test'');
          st2 = (if length (exploration_paths s2) > 0
                 then od_update st1 (get_generic_path_information K (trace s2) ''Exploration'')
                 else st1);
          s3 = (if has_log_diagnostics K then emit LogDiagnostics s2 else s2);
          st3 = (case get_diagnostics K of
                   None \<Rightarrow> st2
                 | Some diag \<Rightarrow> od_update st2 (diag (trace s3)));
          s4 = (case get_diagnostics K of None \<Rightarrow> s3 | Some diag \<Rightarrow> emit GetDiagnostics s3);
          st4 = od_update st3 [''AverageReturn''];
          s5 = fold record_tabular st4 s4
      in s5\<lparr>need_to_update_eval_statistics := True\<rparr>)"

text \<open>
  Lines 302 to 349 of \<^verbatim>\<open>_try_to_eval\<close>: the evaluation, then the counters, the
  timings and the epoch recorded into the logger's table. \<^verbatim>\<open>gt.get_times()\<close> is
  called on lines 317 and 330; on an epoch that is not positive the source seeds
  \<^verbatim>\<open>times_itrs['eval']\<close> in between. The timer's keys are listed on line 342.
\<close>

definition report_row :: "'v collab \<Rightarrow> int \<Rightarrow> 'v path list option \<Rightarrow> 'v rl \<Rightarrow> 'v rl" where
  "report_row K epoch eval_paths s =
     (let s1 = evaluate K epoch eval_paths s;
          s2 = fold record_tabular
                 [''Number of train steps total'', ''Number of env steps total'',
                  ''Number of rollouts total''] s1;
          s3 = emit GetTimes (if epoch > 0 then emit GetTimes s2
                              else emit SeedEvalTime (emit GetTimes s2));
          s4 = fold record_tabular (times_itrs_titles K (trace s3)) s3
      in fold record_tabular
           [''Train Time (s) ---'', ''(Previous) Eval Time (s) ---'',
            ''Sample Time (s) ---'', ''Epoch Time (s)'', ''Total Train Time (s)'',
            ''Epoch''] s4)"

text \<open>
  Modelled from the spec: the logger (rlkit/core/logger.py) is the reporting sink of
  section 6. \<^verbatim>\<open>record_tabular\<close> adds a key to the row being built, \<^verbatim>\<open>dump_tabular\<close>
  finalizes the row and starts an empty one, and \<^verbatim>\<open>get_table_key_set\<close> is the set of
  keys of the row being built.
\<close>

fun table_step :: "'v event \<Rightarrow> string list \<Rightarrow> string list" where
  "table_step (RecordTabular key) row = row @ [key]"
| "table_step DumpTabular row = []"
| "table_step _ row = row"

definition get_table_key_set :: "'v event list \<Rightarrow> string set" where
  "get_table_key_set tr = set (fold table_step tr [])"

text \<open>\<^verbatim>\<open>_try_to_eval\<close> (lines 290 to 363).\<close>

definition try_to_eval ::
  "'v collab \<Rightarrow> int \<Rightarrow> 'v path list option \<Rightarrow> 'v rl \<Rightarrow> (exc + unit) \<times> 'v rl" where
  "try_to_eval K epoch eval_paths s =
     and_then (save_checkpoints K epoch s) (\<lambda>_ s0.
       if can_evaluate s0 then
         (let s1 = emit GetTableKeySet (report_row K epoch eval_paths s0);
              table_keys = get_table_key_set (trace s1)
          in if old_table_keys s1 \<noteq> None \<and> Some table_keys \<noteq> old_table_keys s1
             then (Inl NotImplementedError,
                   emit UpdateHeader
                     (emit (Print ''Table keys have changed. Rewriting header and filling with 0s'')
                        s1))
             else (Inr (), emit DumpTabular (s1\<lparr>old_table_keys := Some table_keys\<rparr>)))
       else (Inr (), emit (Log ''Skipping eval for now.'') s0))"

subsection \<open>Epochs\<close>

text \<open>
  \<^verbatim>\<open>_start_epoch\<close> (lines 397 to 401), \<^verbatim>\<open>_end_epoch\<close> (lines 403 to 411) and the two
  functions of lines 588 to 595. A post-epoch function is an opaque callable; its call
  is recorded.
\<close>

definition start_epoch :: "int \<Rightarrow> 'v rl \<Rightarrow> 'v rl" where
  "start_epoch epoch s =
     emit (PushPrefix epoch) (s\<lparr>exploration_paths := [], do_train_time := 0\<rparr>)"

definition end_epoch :: "'v collab \<Rightarrow> int \<Rightarrow> 'v rl \<Rightarrow> 'v rl" where
  "end_epoch K epoch s =
     (let s1 = emit (Log ''Epoch Duration'') s;
          (started, s1') = can_train K s1;
          s2 = emit (Log (''Started Training: '' @ (if started then ''True'' else ''False''))) s1';
          s3 = emit PopPrefix s2
      in fold (\<lambda>f. emit (PostEpochFunc f epoch)) (post_epoch_funcs s3) s3)"

definition set_to_train_mode :: "'v collab \<Rightarrow> 'v rl \<Rightarrow> 'v rl" where
  "set_to_train_mode K s = (if has_train K then emit EnvTrain s else s)"

definition set_to_eval_mode :: "'v collab \<Rightarrow> 'v rl \<Rightarrow> 'v rl" where
  "set_to_eval_mode K s = (if has_eval K then emit EnvEval s else s)"

text \<open>
  The inner loop of \<^verbatim>\<open>train_online\<close> (lines 187 to 192) and of \<^verbatim>\<open>train_batch\<close>
  (lines 210 to 211), by the number of iterations left.
\<close>

fun online_steps :: "'v collab \<Rightarrow> nat \<Rightarrow> 'v \<Rightarrow> 'v rl \<Rightarrow> (exc + 'v) \<times> 'v rl" where
  "online_steps K 0 ob s = (Inr ob, s)"
| "online_steps K (Suc n) ob s =
     and_then (take_step_in_env K ob s) (\<lambda>ob1 s1.
       and_then (try_to_train K (emit (Stamp ''sample'') s1)) (\<lambda>_ s2.
         online_steps K n ob1 (emit (Stamp ''train'') s2)))"

fun batch_steps :: "'v collab \<Rightarrow> nat \<Rightarrow> 'v \<Rightarrow> 'v rl \<Rightarrow> (exc + 'v) \<times> 'v rl" where
  "batch_steps K 0 ob s = (Inr ob, s)"
| "batch_steps K (Suc n) ob s =
     and_then (take_step_in_env K ob s) (\<lambda>ob1 s1. batch_steps K n ob1 s1)"

text \<open>The body of the epoch loop of \<^verbatim>\<open>train_online\<close> (lines 184 to 197).\<close>

definition online_epoch :: "'v collab \<Rightarrow> int \<Rightarrow> 'v rl \<Rightarrow> (exc + unit) \<times> 'v rl" where
  "online_epoch K epoch s =
     (let (ob, s1) = start_new_rollout K (set_to_train_mode K (start_epoch epoch s))
      in and_then (online_steps K (nat (num_env_steps_per_epoch s1)) ob s1) (\<lambda>_ s2.
           and_then (try_to_eval K epoch None (set_to_eval_mode K s2)) (\<lambda>_ s3.
             (Inr (), end_epoch K epoch (emit (Stamp ''eval'') s3)))))"

text \<open>The body of the epoch loop of \<^verbatim>\<open>train_batch\<close> (lines 205 to 222).\<close>

definition batch_epoch :: "'v collab \<Rightarrow> int \<Rightarrow> 'v rl \<Rightarrow> (exc + unit) \<times> 'v rl" where
  "batch_epoch K epoch s =
     (let (ob, s1) = start_new_rollout K (set_to_train_mode K (start_epoch epoch s))
      in and_then (batch_steps K (nat (num_env_steps_per_epoch s1)) ob s1) (\<lambda>_ s2.
           and_then (try_to_train K (emit (Stamp ''sample'') s2)) (\<lambda>_ s3.
             let s4 = set_to_eval_mode K (emit (Stamp ''train'') s3)
             in and_then (py_mod epoch (num_epochs_per_eval s4), s4) (\<lambda>r s4.
                  and_then
                    (if r = 0
                     then and_then (try_to_eval K epoch None s4)
                            (\<lambda>_ s5. (Inr (), emit (Stamp ''eval'') s5))
                     else (Inr (), s4))
                    (\<lambda>_ s6. (Inr (), end_epoch K epoch s6))))))"

text \<open>
  \<^verbatim>\<open>for epoch in range(start_epoch, self.num_epochs)\<close>, over the list of its epochs.
\<close>

fun run_epochs ::
  "(int \<Rightarrow> 'v rl \<Rightarrow> (exc + unit) \<times> 'v rl) \<Rightarrow> int list \<Rightarrow> 'v rl \<Rightarrow> (exc + unit) \<times> 'v rl" where
  "run_epochs body [] s = (Inr (), s)"
| "run_epochs body (epoch # epochs) s =
     and_then (body epoch s) (\<lambda>_ s1. run_epochs body epochs s1)"

definition train_online :: "'v collab \<Rightarrow> int \<Rightarrow> 'v rl \<Rightarrow> (exc + unit) \<times> 'v rl" where
  "train_online K start s =
     run_epochs (online_epoch K) [start..num_epochs s - 1] (s\<lparr>current_path_builder := []\<rparr>)"

definition train_batch :: "'v collab \<Rightarrow> int \<Rightarrow> 'v rl \<Rightarrow> (exc + unit) \<times> 'v rl" where
  "train_batch K start s =
     run_epochs (batch_epoch K) [start..num_epochs s - 1] (s\<lparr>current_path_builder := []\<rparr>)"

text \<open>
  \<^verbatim>\<open>train\<close>: lines 158 to 165, then the dispatch of lines 166 to 173.
  \<^verbatim>\<open>pretrain\<close> is \<^verbatim>\<open>pass\<close>, and \<^verbatim>\<open>gt.reset()\<close> with \<^verbatim>\<open>gt.set_def_unique(False)\<close> is one
  event.
\<close>

definition train_setup :: "'v collab \<Rightarrow> int \<Rightarrow> 'v rl \<Rightarrow> 'v rl" where
  "train_setup K start s =
     (let s1 = (if start = 0 \<and> mpi_rank K = Some 0
                then emit (SaveItrParams (- 1) (get_epoch_snapshot (- 1) s)) s
                else s);
          s2 = emit (TrainingMode False) s1;
          s3 = s2\<lparr>n_env_steps_total := start * num_env_steps_per_epoch s2\<rparr>
      in emit GtReset s3)"

definition train :: "'v collab \<Rightarrow> int \<Rightarrow> 'v rl \<Rightarrow> (exc + unit) \<times> 'v rl" where
  "train K start s =
     (let s4 = train_setup K start s
      in if collection_mode s4 = ''online'' then train_online K start s4
         else if collection_mode s4 = ''batch'' then train_batch K start s4
         else (Inl TypeError, s4))"

subsection \<open>Observations on histories\<close>

text \<open>The calls between two states of one run.\<close>

definition new_events :: "'v rl \<Rightarrow> 'v rl \<Rightarrow> 'v event list" where
  "new_events s s' = drop (length (trace s)) (trace s')"

text \<open>The number of update operations (calls of \<^verbatim>\<open>_do_training\<close>) in a history.\<close>

fun is_update :: "'v event \<Rightarrow> bool" where
  "is_update DoTraining = True"
| "is_update _ = False"

definition updates_in :: "'v event list \<Rightarrow> nat" where
  "updates_in tr = length (filter is_update tr)"

text \<open>
  The number of training phases that went on to train: \<^verbatim>\<open>training_mode(True)\<close> is called
  on line 279 and nowhere else in the file.
\<close>

fun is_training_start :: "'v event \<Rightarrow> bool" where
  "is_training_start (TrainingMode on) = on"
| "is_training_start _ = False"

definition training_starts_in :: "'v event list \<Rightarrow> nat" where
  "training_starts_in tr = length (filter is_training_start tr)"

text \<open>The number of samples handed to the replay buffer.\<close>

fun is_add_sample :: "'v event \<Rightarrow> bool" where
  "is_add_sample (AddSample t) = True"
| "is_add_sample _ = False"

definition samples_in :: "'v event list \<Rightarrow> nat" where
  "samples_in tr = length (filter is_add_sample tr)"

text \<open>
  The number of evaluations: \<^verbatim>\<open>evaluate\<close> opens with a log line of its own. The number
  of report rows emitted by \<^verbatim>\<open>dump_tabular\<close>.
\<close>

fun is_evaluation :: "'v event \<Rightarrow> bool" where
  "is_evaluation (Log m) = (m = ''Collecting samples for evaluation'')"
| "is_evaluation _ = False"

definition evaluations_in :: "'v event list \<Rightarrow> nat" where
  "evaluations_in tr = length (filter is_evaluation tr)"

fun is_dump :: "'v event \<Rightarrow> bool" where
  "is_dump DumpTabular = True"
| "is_dump _ = False"

definition rows_in :: "'v event list \<Rightarrow> nat" where
  "rows_in tr = length (filter is_dump tr)"

text \<open>What has been persisted: the calls of \<^verbatim>\<open>save_extra_data\<close> and \<^verbatim>\<open>save_itr_params\<close>.\<close>

fun is_persist :: "'v event \<Rightarrow> bool" where
  "is_persist (SaveExtraData epoch d) = True"
| "is_persist (SaveItrParams epoch d) = True"
| "is_persist _ = False"

definition persisted :: "'v event list \<Rightarrow> 'v event list" where
  "persisted tr = filter is_persist tr"

text \<open>The calls that lines 291 to 299 can make.\<close>

fun is_checkpoint :: "'v event \<Rightarrow> bool" where
  "is_checkpoint RenderClose = True"
| "is_checkpoint (SaveExtraData epoch d) = True"
| "is_checkpoint (SaveItrParams epoch d) = True"
| "is_checkpoint (Print m) = True"
| "is_checkpoint _ = False"

text \<open>
  The schedule of a history: its environment steps, the questions
  \<^verbatim>\<open>num_steps_can_sample()\<close> put to the replay buffer, and the timer's stamps, in order.
  A training phase asks the buffer once; so does \<^verbatim>\<open>_end_epoch\<close> for its log line.
\<close>

datatype mark = StepTaken | BufferAsked | Stamped string

fun mark_of :: "'v event \<Rightarrow> mark list" where
  "mark_of (EnvStep a) = [StepTaken]"
| "mark_of NumStepsCanSample = [BufferAsked]"
| "mark_of (Stamp name) = [Stamped name]"
| "mark_of _ = []"

definition schedule :: "'v event list \<Rightarrow> mark list" where
  "schedule tr = concat (map mark_of tr)"

text \<open>The attributes that are fixed once \<^verbatim>\<open>__init__\<close> has returned.\<close>

definition config ::
  "'v rl \<Rightarrow> int \<times> int \<times> int \<times> int \<times> int \<times> int option \<times> int \<times> string" where
  "config s =
     (num_epochs s, num_env_steps_per_epoch s, num_updates_per_train_call s,
      max_path_length s, min_num_steps_before_training s, gpu_id s,
      num_epochs_per_eval s, collection_mode s)"

subsection \<open>Example collaborators and states\<close>

text \<open>
  A single process without MPI and without an accelerator mode: an environment that
  never ends an episode, a replay buffer that starts empty and reports the number of
  samples added, and a learner whose updates succeed and refresh its statistics.
\<close>

definition plain_collab :: "nat collab" where
  "plain_collab =
     \<lparr>mpi_rank = None, get_mode = None,
      get_action = (\<lambda>tr ob. (0, 0)),
      env_step = (\<lambda>tr a. (0, 1, False, 0)),
      env_reset = (\<lambda>tr. 0),
      num_steps_can_sample = (\<lambda>tr. int (samples_in tr)),
      handle_step_takes_mask = True,
      do_training = (\<lambda>tr need stats. ((False, stats), None)),
      has_train = False, has_eval = False, has_log_diagnostics = False,
      get_diagnostics = None,
      get_generic_path_information = (\<lambda>tr prefix. []),
      times_itrs_titles = (\<lambda>tr. [])\<rparr>"

text \<open>Rank 0 of an MPI run in the mode \<^verbatim>\<open>gpu_opt\<close>, and one whose updates raise.\<close>

definition gpu_collab :: "nat collab" where
  "gpu_collab = plain_collab\<lparr>mpi_rank := Some 0, get_mode := Some ''gpu_opt''\<rparr>"

definition failing_collab :: "nat collab" where
  "failing_collab =
     gpu_collab\<lparr>do_training := (\<lambda>tr need stats. ((need, stats), Some UpdateError))\<rparr>"

text \<open>Replay buffers that report a fixed number of samples.\<close>

definition reporting :: "int \<Rightarrow> nat collab" where
  "reporting n = plain_collab\<lparr>num_steps_can_sample := (\<lambda>tr. n)\<rparr>"

text \<open>
  One epoch of two steps, online and batch; \<^verbatim>\<open>min_num_steps_before_training\<close> is left
  unset. The same on rank 0 in the mode \<^verbatim>\<open>gpu_opt\<close>, with a threshold of 0.
\<close>

definition small_args :: args where
  "small_args =
     default_args\<lparr>arg_num_epochs := 1, arg_num_steps_per_epoch := 2,
                  arg_max_path_length := 3\<rparr>"

definition small_state :: "nat rl" where
  "small_state = projr (init plain_collab small_args)"

definition small_batch_state :: "nat rl" where
  "small_batch_state =
     projr (init plain_collab
       (small_args\<lparr>arg_collection_mode := ''batch'', arg_num_updates_per_epoch := Some 1\<rparr>))"

definition gpu_state :: "nat rl" where
  "gpu_state =
     projr (init gpu_collab (small_args\<lparr>arg_min_num_steps_before_training := Some 0\<rparr>))"

text \<open>The transition that one step of the example environment produces.\<close>

definition a_transition :: "nat transition" where
  "a_transition =
     \<lparr>observation = 0, action = 0, reward = 1, next_observation = 0, terminal = False,
      agent_info = 0, env_info = 0\<rparr>"

text \<open>The state after one step of the example environment.\<close>

definition stepped :: "nat rl \<Rightarrow> nat rl" where
  "stepped s =
     s\<lparr>n_env_steps_total := 1, current_path_builder := [a_transition],
       trace := [SetNumStepsTotal 0, GetAction 0, EnvStep 0, AddSample a_transition]\<rparr>"

text \<open>
  A state in which an evaluation is due: one exploration path of one transition, fresh
  statistics, and a first report row on record with the keys \<open>keys\<close>.
\<close>

definition eval_ready :: "string set \<Rightarrow> nat rl" where
  "eval_ready keys =
     small_state\<lparr>exploration_paths := [get_all_stacked [a_transition]],
                 need_to_update_eval_statistics := False,
                 old_table_keys := Some keys\<rparr>"

definition report_keys :: "string set" where
  "report_keys =
     set [''AverageReturn'', ''Number of train steps total'', ''Number of env steps total'',
          ''Number of rollouts total'', ''Train Time (s) ---'',
          ''(Previous) Eval Time (s) ---'', ''Sample Time (s) ---'', ''Epoch Time (s)'',
          ''Total Train Time (s)'', ''Epoch'']"

section \<open>Basic facts\<close>

lemma and_then_Inl [simp]: "and_then (Inl e, s) f = (Inl e, s)"
  by (simp add: and_then_def)

lemma and_then_Inr [simp]: "and_then (Inr x, s) f = f x s"
  by (simp add: and_then_def)

lemma and_then_split:
  "P (and_then r f) \<longleftrightarrow>
     (\<forall>e s. r = (Inl e, s) \<longrightarrow> P (Inl e, s)) \<and> (\<forall>x s. r = (Inr x, s) \<longrightarrow> P (f x s))"
  by (cases r; cases "fst r") auto

lemma and_then_split_asm:
  "P (and_then r f) \<longleftrightarrow>
     \<not> ((\<exists>e s. r = (Inl e, s) \<and> \<not> P (Inl e, s)) \<or> (\<exists>x s. r = (Inr x, s) \<and> \<not> P (f x s)))"
  by (cases r; cases "fst r") auto

lemma updates_in_append [simp]: "updates_in (xs @ ys) = updates_in xs + updates_in ys"
  by (simp add: updates_in_def)

lemma updates_in_Cons [simp]:
  "updates_in (x # xs) = (if is_update x then 1 else 0) + updates_in xs"
  by (simp add: updates_in_def)

lemma updates_in_Nil [simp]: "updates_in [] = 0"
  by (simp add: updates_in_def)

lemma training_starts_in_append [simp]:
  "training_starts_in (xs @ ys) = training_starts_in xs + training_starts_in ys"
  by (simp add: training_starts_in_def)

lemma training_starts_in_Cons [simp]:
  "training_starts_in (x # xs) = (if is_training_start x then 1 else 0) + training_starts_in xs"
  by (simp add: training_starts_in_def)

lemma training_starts_in_Nil [simp]: "training_starts_in [] = 0"
  by (simp add: training_starts_in_def)

lemma samples_in_append [simp]: "samples_in (xs @ ys) = samples_in xs + samples_in ys"
  by (simp add: samples_in_def)

lemma samples_in_Cons [simp]:
  "samples_in (x # xs) = (if is_add_sample x then 1 else 0) + samples_in xs"
  by (simp add: samples_in_def)

lemma samples_in_Nil [simp]: "samples_in [] = 0"
  by (simp add: samples_in_def)

lemma evaluations_in_append [simp]: "evaluations_in (xs @ ys) = evaluations_in xs + evaluations_in ys"
  by (simp add: evaluations_in_def)

lemma evaluations_in_Cons [simp]:
  "evaluations_in (x # xs) = (if is_evaluation x then 1 else 0) + evaluations_in xs"
  by (simp add: evaluations_in_def)

lemma evaluations_in_Nil [simp]: "evaluations_in [] = 0"
  by (simp add: evaluations_in_def)

lemma rows_in_append [simp]: "rows_in (xs @ ys) = rows_in xs + rows_in ys"
  by (simp add: rows_in_def)

lemma rows_in_Cons [simp]:
  "rows_in (x # xs) = (if is_dump x then 1 else 0) + rows_in xs"
  by (simp add: rows_in_def)

lemma rows_in_Nil [simp]: "rows_in [] = 0"
  by (simp add: rows_in_def)

lemma persisted_append [simp]: "persisted (xs @ ys) = persisted xs @ persisted ys"
  by (simp add: persisted_def)

lemma persisted_Cons [simp]:
  "persisted (x # xs) = (if is_persist x then x # persisted xs else persisted xs)"
  by (simp add: persisted_def)

lemma persisted_Nil [simp]: "persisted [] = []"
  by (simp add: persisted_def)

lemma schedule_append [simp]: "schedule (xs @ ys) = schedule xs @ schedule ys"
  by (simp add: schedule_def)

lemma schedule_Cons [simp]: "schedule (x # xs) = mark_of x @ schedule xs"
  by (simp add: schedule_def)

lemma schedule_Nil [simp]: "schedule [] = []"
  by (simp add: schedule_def)

lemma resident_append [simp]: "resident (tr @ es) = fold device_after es (resident tr)"
  by (simp add: resident_def)

lemma resident_Nil [simp]: "resident [] = Cpu"
  by (simp add: resident_def)

lemma new_events_same [simp]: "new_events s s = []"
  by (simp add: new_events_def)

lemma new_events_update [simp]: "new_events s (s\<lparr>trace := trace s @ es\<rparr>) = es"
  by (simp add: new_events_def)

text \<open>Recording keys and calling post-epoch functions only extend the history.\<close>

lemma fold_record_tabular:
  "fold record_tabular ks s = s\<lparr>trace := trace s @ map RecordTabular ks\<rparr>"
  by (induction ks arbitrary: s) (simp_all add: record_tabular_def emit_def)

lemma fold_post_epoch:
  "fold (\<lambda>f. emit (PostEpochFunc f epoch)) fs s =
     s\<lparr>trace := trace s @ map (\<lambda>f. PostEpochFunc f epoch) fs\<rparr>"
  by (induction fs arbitrary: s) (simp_all add: emit_def)

lemma map_RecordTabular_neutral [simp]:
  "updates_in (map RecordTabular ks) = 0"
  "evaluations_in (map RecordTabular ks) = 0"
  "rows_in (map RecordTabular ks) = 0"
  "persisted (map RecordTabular ks) = []"
  "schedule (map RecordTabular ks) = []"
  by (induction ks) simp_all

lemma map_PostEpochFunc_neutral [simp]:
  "updates_in (map (\<lambda>f. PostEpochFunc f epoch) fs) = 0"
  "persisted (map (\<lambda>f. PostEpochFunc f epoch) fs) = []"
  "schedule (map (\<lambda>f. PostEpochFunc f epoch) fs) = []"
  by (induction fs) simp_all

text \<open>The calls of lines 291 to 299 are invisible to the other observations.\<close>

lemma checkpoint_event_neutral:
  assumes "is_checkpoint e"
  shows "\<not> is_update e \<and> \<not> is_evaluation e \<and> \<not> is_dump e \<and> mark_of e = []
         \<and> table_step e row = row"
  using assms by (cases e) simp_all

lemma checkpoint_neutral:
  assumes "list_all is_checkpoint es"
  shows "updates_in es = 0 \<and> evaluations_in es = 0 \<and> rows_in es = 0 \<and> schedule es = []
         \<and> fold table_step es row = row"
  using assms
proof (induction es)
  case Nil
  show ?case by simp
next
  case (Cons e es)
  then have "is_checkpoint e" and "list_all is_checkpoint es" by simp_all
  with Cons.IH checkpoint_event_neutral [of e row] show ?case by simp
qed

section \<open>What each method leaves alone\<close>

subsection \<open>Environment steps\<close>

lemma take_step_frame:
  assumes "take_step_in_env K ob s = (r, s')"
  shows "config s' = config s"
    and "schedule (trace s') = schedule (trace s) @ [StepTaken]"
    and "updates_in (trace s') = updates_in (trace s)"
    and "persisted (trace s') = persisted (trace s)"
  using assms
  by (auto simp: take_step_in_env_def sample_step_def get_action_and_info_def handle_step_def
      handle_rollout_ending_def start_new_rollout_def emit_def Let_def config_def
      split: prod.splits if_splits)

lemma take_step_samples:
  assumes "handle_step_takes_mask K" and "take_step_in_env K ob s = (r, s')"
  shows "samples_in (trace s') = samples_in (trace s) + 1" and "\<exists>ob'. r = Inr ob'"
  using assms
  by (auto simp: take_step_in_env_def sample_step_def get_action_and_info_def handle_step_def
      handle_rollout_ending_def start_new_rollout_def emit_def Let_def
      split: prod.splits if_splits)

lemma sample_step_total:
  "handle_step_takes_mask K \<Longrightarrow>
     \<exists>next_ob term s5. sample_step K ob s = (Inr (next_ob, term), s5)"
  by (simp add: sample_step_def Let_def split: prod.splits)

lemma sample_step_type_error:
  "\<not> handle_step_takes_mask K \<Longrightarrow> fst (sample_step K ob s) = Inl TypeError"
  by (simp add: sample_step_def Let_def split: prod.splits)

lemma sample_step_fields:
  assumes "sample_step K ob s = (Inr (next_ob, term), s5)"
  shows "length (current_path_builder s5) = length (current_path_builder s) + 1"
    and "max_path_length s5 = max_path_length s"
    and "n_rollouts_total s5 = n_rollouts_total s"
  using assms
  by (auto simp: sample_step_def get_action_and_info_def handle_step_def emit_def Let_def
      split: prod.splits if_splits)

subsection \<open>The training phase\<close>

lemma do_training_call_frame:
  assumes "do_training_call K s = (r, s')"
  shows "config s' = config s"
    and "schedule (trace s') = schedule (trace s)"
    and "samples_in (trace s') = samples_in (trace s)"
    and "persisted (trace s') = persisted (trace s)"
    and "resident (trace s') = resident (trace s)"
    and "updates_in (trace s') = updates_in (trace s) + 1"
  using assms
  by (auto simp: do_training_call_def emit_def Let_def config_def
      split: prod.splits option.splits)

lemma update_burst_frame:
  "update_burst K n s = (r, s') \<Longrightarrow>
     config s' = config s \<and> schedule (trace s') = schedule (trace s)
     \<and> samples_in (trace s') = samples_in (trace s)
     \<and> persisted (trace s') = persisted (trace s)
     \<and> resident (trace s') = resident (trace s)
     \<and> updates_in (trace s) \<le> updates_in (trace s')"
proof (induction n arbitrary: s r s')
  case 0
  then show ?case by simp
next
  case (Suc n)
  obtain r1 s1 where d: "do_training_call K s = (r1, s1)"
    by (cases "do_training_call K s")
  note f = do_training_call_frame [OF d]
  show ?case
  proof (cases r1)
    case (Inl e)
    with Suc.prems d f show ?thesis by simp
  next
    case (Inr u)
    let ?s2 = "s1\<lparr>n_train_steps_total := n_train_steps_total s1 + 1\<rparr>"
    from Suc.prems d Inr have "update_burst K n ?s2 = (r, s')" by simp
    from Suc.IH [OF this] f show ?thesis by (simp add: config_def)
  qed
qed

lemma update_burst_pos:
  assumes "0 < n" and "update_burst K n s = (r, s')"
  shows "updates_in (trace s) < updates_in (trace s')"
proof -
  from assms(1) obtain m where n: "n = Suc m" by (cases n) auto
  obtain r1 s1 where d: "do_training_call K s = (r1, s1)"
    by (cases "do_training_call K s")
  note f = do_training_call_frame [OF d]
  show ?thesis
  proof (cases r1)
    case (Inl e)
    with assms(2) n d f show ?thesis by simp
  next
    case (Inr u)
    let ?s2 = "s1\<lparr>n_train_steps_total := n_train_steps_total s1 + 1\<rparr>"
    from assms(2) n d Inr have "update_burst K m ?s2 = (r, s')" by simp
    from update_burst_frame [OF this] f show ?thesis by simp
  qed
qed

lemma update_burst_starts:
  "update_burst K n s = (r, s') \<Longrightarrow>
     training_starts_in (trace s') = training_starts_in (trace s)"
proof (induction n arbitrary: s r s')
  case 0
  then show ?case by simp
next
  case (Suc n)
  obtain r1 s1 where d: "do_training_call K s = (r1, s1)"
    by (cases "do_training_call K s")
  then have t: "training_starts_in (trace s1) = training_starts_in (trace s)"
    by (auto simp: do_training_call_def emit_def Let_def split: prod.splits option.splits)
  show ?case
  proof (cases r1)
    case (Inl e)
    with Suc.prems d t show ?thesis by simp
  next
    case (Inr u)
    let ?s2 = "s1\<lparr>n_train_steps_total := n_train_steps_total s1 + 1\<rparr>"
    from Suc.prems d Inr have "update_burst K n ?s2 = (r, s')" by simp
    from Suc.IH [OF this] t show ?thesis by simp
  qed
qed

lemma update_burst_done:
  "update_burst K n s = (Inr u, s') \<Longrightarrow>
     updates_in (trace s') = updates_in (trace s) + n
     \<and> n_train_steps_total s' = n_train_steps_total s + int n"
proof (induction n arbitrary: s s')
  case 0
  then show ?case by simp
next
  case (Suc n)
  obtain r1 s1 where d: "do_training_call K s = (r1, s1)"
    by (cases "do_training_call K s")
  note f = do_training_call_frame [OF d]
  from d have c: "n_train_steps_total s1 = n_train_steps_total s"
    by (auto simp: do_training_call_def emit_def Let_def split: prod.splits option.splits)
  show ?case
  proof (cases r1)
    case (Inl e)
    with Suc.prems d show ?thesis by simp
  next
    case (Inr v)
    let ?s2 = "s1\<lparr>n_train_steps_total := n_train_steps_total s1 + 1\<rparr>"
    from Suc.prems d Inr have "update_burst K n ?s2 = (Inr u, s')" by simp
    from Suc.IH [OF this] f(6) c show ?thesis by simp
  qed
qed

lemma acquire_device_frame:
  assumes "acquire_device K s = (r, s1)"
  shows "config s1 = config s" and "samples_in (trace s1) = samples_in (trace s)"
    and "updates_in (trace s1) = updates_in (trace s)"
    and "n_train_steps_total s1 = n_train_steps_total s"
  using assms
  by (auto simp: acquire_device_def emit_def config_def split: if_splits option.splits)

lemma acquire_device_ok:
  assumes "get_mode K = Some ''gpu_opt'' \<longrightarrow> gpu_id s \<noteq> None"
  shows "\<exists>s1. acquire_device K s = (Inr (), s1)"
  using assms by (auto simp: acquire_device_def)

lemma release_device_updates:
  "updates_in (trace (snd (release_device K s))) = updates_in (trace s)"
  by (simp add: release_device_def emit_def)

lemma release_device_ok: "fst (release_device K s) = Inr ()"
  by (simp add: release_device_def)

lemma try_to_train_frame:
  assumes "try_to_train K s = (r, s')"
  shows "config s' = config s" and "samples_in (trace s') = samples_in (trace s)"
    and "persisted (trace s') = persisted (trace s)"
    and "updates_in (trace s) \<le> updates_in (trace s')"
  using assms
  by (auto simp: try_to_train_def acquire_device_def release_device_def can_train_def emit_def
      config_def
      split: and_then_split_asm if_splits option.splits dest!: update_burst_frame)

lemma try_to_train_schedule:
  assumes "try_to_train K s = (Inr u, s')"
  shows "schedule (trace s') = schedule (trace s) @ [BufferAsked]"
  using assms
  by (auto simp: try_to_train_def acquire_device_def release_device_def can_train_def emit_def
      split: and_then_split_asm if_splits option.splits dest!: update_burst_frame)

text \<open>Raising, a training phase has asked the buffer or has not.\<close>

lemma try_to_train_schedule_any:
  assumes "try_to_train K s = (r, s')"
  shows "schedule (trace s') = schedule (trace s)
         \<or> schedule (trace s') = schedule (trace s) @ [BufferAsked]"
  using assms
  by (auto simp: try_to_train_def acquire_device_def release_device_def can_train_def emit_def
      split: and_then_split_asm if_splits option.splits dest!: update_burst_frame)

lemma try_to_train_waits:
  assumes acq: "acquire_device K s = (Inr (), s1)"
    and low: "num_steps_can_sample K (trace s1) < min_num_steps_before_training s"
  shows "try_to_train K s = release_device K (emit NumStepsCanSample s1)"
proof -
  from acquire_device_frame(1) [OF acq]
  have "min_num_steps_before_training s1 = min_num_steps_before_training s"
    by (simp add: config_def)
  with acq low show ?thesis by (simp add: try_to_train_def can_train_def)
qed

lemma try_to_train_trains:
  assumes acq: "acquire_device K s = (Inr (), s1)"
    and ready: "min_num_steps_before_training s \<le> num_steps_can_sample K (trace s1)"
    and pos: "0 < num_updates_per_train_call s"
  shows "updates_in (trace s) < updates_in (trace (snd (try_to_train K s)))"
proof -
  note f = acquire_device_frame [OF acq]
  from f(1) have cfg: "min_num_steps_before_training s1 = min_num_steps_before_training s"
    "num_updates_per_train_call s1 = num_updates_per_train_call s"
    by (simp_all add: config_def)
  let ?s2 = "emit (TrainingMode True) (emit NumStepsCanSample s1)"
  obtain x s3 where b: "update_burst K (nat (num_updates_per_train_call s)) ?s2 = (x, s3)"
    by (cases "update_burst K (nat (num_updates_per_train_call s)) ?s2")
  from update_burst_pos [OF _ b] pos f(3)
  have lt: "updates_in (trace s) < updates_in (trace s3)" by (simp add: emit_def)
  have "updates_in (trace (snd (try_to_train K s))) = updates_in (trace s3)"
    using acq cfg ready b
    by (cases x) (auto simp: try_to_train_def can_train_def emit_def release_device_def)
  with lt show ?thesis by simp
qed

subsection \<open>The evaluation phase\<close>

lemma get_extra_data_to_save_state:
  "snd (get_extra_data_to_save epoch s) = (if render s then emit RenderClose s else s)"
  by (simp add: get_extra_data_to_save_def Let_def)

lemma save_extra_data_extends:
  assumes "save_extra_data epoch s = (r, s')"
  shows "s' = s\<lparr>trace := trace s @ new_events s s'\<rparr>
         \<and> list_all is_checkpoint (new_events s s')"
proof -
  obtain d s1 where g: "get_extra_data_to_save epoch s = (d, s1)"
    by (cases "get_extra_data_to_save epoch s")
  with get_extra_data_to_save_state [of epoch s]
  have s1: "s1 = (if render s then emit RenderClose s else s)" by simp
  show ?thesis
    using assms g
    by (auto simp: save_extra_data_def py_mod_def s1 emit_def split: if_splits)
qed

lemma save_itr_params_extends:
  assumes "save_itr_params epoch s = (r, s')"
  shows "s' = s\<lparr>trace := trace s @ new_events s s'\<rparr>
         \<and> list_all is_checkpoint (new_events s s')"
  using assms
  by (auto simp: save_itr_params_def py_mod_def emit_def split: if_splits)

lemma save_checkpoints_extends:
  assumes "save_checkpoints K epoch s = (r, s')"
  shows "\<exists>es. s' = s\<lparr>trace := trace s @ es\<rparr> \<and> list_all is_checkpoint es"
proof (cases "mpi_rank K = Some 0")
  case False
  with assms have "s' = s\<lparr>trace := trace s @ []\<rparr>" by (simp add: save_checkpoints_def)
  then show ?thesis by (intro exI [of _ "[]"]) simp
next
  case True
  obtain r1 s1 where a: "save_extra_data epoch s = (r1, s1)"
    by (cases "save_extra_data epoch s")
  from save_extra_data_extends [OF a] obtain es1 where
    e1: "s1 = s\<lparr>trace := trace s @ es1\<rparr>" "list_all is_checkpoint es1" by blast
  show ?thesis
  proof (cases r1)
    case (Inl e)
    with assms True a have "s' = s1" by (simp add: save_checkpoints_def)
    with e1 show ?thesis by blast
  next
    case (Inr u)
    with assms True a have b: "save_itr_params epoch s1 = (r, s')"
      by (simp add: save_checkpoints_def)
    from save_itr_params_extends [OF b] obtain es2 where
      e2: "s' = s1\<lparr>trace := trace s1 @ es2\<rparr>" "list_all is_checkpoint es2" by blast
    from e1 e2 have "s' = s\<lparr>trace := trace s @ (es1 @ es2)\<rparr>" by simp
    moreover from e1 e2 have "list_all is_checkpoint (es1 @ es2)" by simp
    ultimately show ?thesis by blast
  qed
qed

lemma save_checkpoints_frame:
  assumes "save_checkpoints K epoch s = (r, s')"
  shows "config s' = config s"
    and "exploration_paths s' = exploration_paths s"
    and "need_to_update_eval_statistics s' = need_to_update_eval_statistics s"
    and "old_table_keys s' = old_table_keys s"
    and "schedule (trace s') = schedule (trace s)"
    and "updates_in (trace s') = updates_in (trace s)"
    and "evaluations_in (trace s') = evaluations_in (trace s)"
    and "rows_in (trace s') = rows_in (trace s)"
    and "fold table_step (trace s') [] = fold table_step (trace s) []"
proof -
  from save_checkpoints_extends [OF assms] obtain es where
    e: "s' = s\<lparr>trace := trace s @ es\<rparr>" and c: "list_all is_checkpoint es" by blast
  note n = checkpoint_neutral [OF c]
  from e show "config s' = config s" by (simp add: config_def)
  from e show "exploration_paths s' = exploration_paths s" by simp
  from e show "need_to_update_eval_statistics s' = need_to_update_eval_statistics s" by simp
  from e show "old_table_keys s' = old_table_keys s" by simp
  from e n show "schedule (trace s') = schedule (trace s)" by simp
  from e n show "updates_in (trace s') = updates_in (trace s)" by simp
  from e n show "evaluations_in (trace s') = evaluations_in (trace s)" by simp
  from e n show "rows_in (trace s') = rows_in (trace s)" by simp
  from e n [of "fold table_step (trace s) []"]
  show "fold table_step (trace s') [] = fold table_step (trace s) []" by simp
qed

lemma save_checkpoints_no_mpi:
  "mpi_rank K = None \<Longrightarrow> save_checkpoints K epoch s = (Inr (), s)"
  by (simp add: save_checkpoints_def)

lemma report_row_frame:
  "config (report_row K epoch ep s) = config s"
  "need_to_update_eval_statistics (report_row K epoch ep s)"
  "exploration_paths (report_row K epoch ep s) = exploration_paths s"
  "old_table_keys (report_row K epoch ep s) = old_table_keys s"
  "schedule (trace (report_row K epoch ep s)) = schedule (trace s)"
  "updates_in (trace (report_row K epoch ep s)) = updates_in (trace s)"
  "persisted (trace (report_row K epoch ep s)) = persisted (trace s)"
  "evaluations_in (trace (report_row K epoch ep s)) = evaluations_in (trace s) + 1"
  "rows_in (trace (report_row K epoch ep s)) = rows_in (trace s)"
  by (simp_all add: report_row_def evaluate_def fold_record_tabular record_tabular_def emit_def
      config_def Let_def split: option.splits list.splits)

lemma table_keys_after_asking:
  "get_table_key_set (trace (emit GetTableKeySet s)) = get_table_key_set (trace s)"
  by (simp add: get_table_key_set_def emit_def)

lemma try_to_eval_frame:
  assumes "try_to_eval K epoch ep s = (r, s')"
  shows "config s' = config s" and "schedule (trace s') = schedule (trace s)"
    and "updates_in (trace s') = updates_in (trace s)"
proof -
  obtain r0 s0 where c: "save_checkpoints K epoch s = (r0, s0)"
    by (cases "save_checkpoints K epoch s")
  note f = save_checkpoints_frame [OF c] report_row_frame [of K epoch ep s0]
  have "config s' = config s \<and> schedule (trace s') = schedule (trace s)
        \<and> updates_in (trace s') = updates_in (trace s)"
  proof (cases r0)
    case (Inl e)
    with assms c f show ?thesis by (simp add: try_to_eval_def)
  next
    case (Inr u)
    show ?thesis
    proof (cases "can_evaluate s0")
      case False
      with assms c Inr f show ?thesis by (auto simp: try_to_eval_def emit_def config_def)
    next
      case True
      let ?r = "emit GetTableKeySet (report_row K epoch ep s0)"
      have "config ?r = config s \<and> schedule (trace ?r) = schedule (trace s)
        \<and> updates_in (trace ?r) = updates_in (trace s)"
        using f by (simp add: emit_def config_def)
      with assms c Inr True show ?thesis
        by (auto simp: try_to_eval_def emit_def config_def Let_def split: if_splits)
    qed
  qed
  then show "config s' = config s" and "schedule (trace s') = schedule (trace s)"
    and "updates_in (trace s') = updates_in (trace s)"
    by simp_all
qed

lemma try_to_eval_persisted:
  assumes "mpi_rank K = None" and "try_to_eval K epoch ep s = (r, s')"
  shows "persisted (trace s') = persisted (trace s)"
proof (cases "can_evaluate s")
  case False
  with assms show ?thesis
    by (auto simp: try_to_eval_def save_checkpoints_no_mpi emit_def)
next
  case True
  let ?r = "emit GetTableKeySet (report_row K epoch ep s)"
  have "persisted (trace ?r) = persisted (trace s)"
    by (simp add: emit_def report_row_frame)
  with assms True show ?thesis
    by (auto simp: try_to_eval_def save_checkpoints_no_mpi emit_def Let_def split: if_splits)
qed

lemma try_to_eval_skip:
  assumes "\<not> can_evaluate s"
  shows "evaluations_in (trace (snd (try_to_eval K epoch ep s))) = evaluations_in (trace s)"
proof (cases "save_checkpoints K epoch s")
  case (Pair r s0)
  note f = save_checkpoints_frame [OF Pair]
  from assms f have "\<not> can_evaluate s0" by (simp add: can_evaluate_def)
  with Pair f show ?thesis
    by (cases r) (simp_all add: try_to_eval_def emit_def)
qed

subsection \<open>Epochs\<close>

lemma end_epoch_frame:
  "config (end_epoch K epoch s) = config s"
  "schedule (trace (end_epoch K epoch s)) = schedule (trace s) @ [BufferAsked]"
  "updates_in (trace (end_epoch K epoch s)) = updates_in (trace s)"
  "persisted (trace (end_epoch K epoch s)) = persisted (trace s)"
  by (simp_all add: end_epoch_def can_train_def fold_post_epoch emit_def config_def Let_def)

lemma epoch_entry_frame:
  assumes "start_new_rollout K (set_to_train_mode K (start_epoch epoch s)) = (ob, s1)"
  shows "config s1 = config s" and "schedule (trace s1) = schedule (trace s)"
    and "updates_in (trace s1) = updates_in (trace s)"
    and "samples_in (trace s1) = samples_in (trace s)"
    and "persisted (trace s1) = persisted (trace s)"
  using assms
  by (auto simp: start_new_rollout_def set_to_train_mode_def start_epoch_def emit_def Let_def
      config_def)

text \<open>The two inner loops.\<close>

lemma online_steps_frame:
  "online_steps K n ob s = (r, s') \<Longrightarrow>
     config s' = config s \<and> persisted (trace s') = persisted (trace s)
     \<and> updates_in (trace s) \<le> updates_in (trace s')"
proof (induction n arbitrary: ob s)
  case 0
  then show ?case by simp
next
  case (Suc n)
  obtain r1 s1 where a: "take_step_in_env K ob s = (r1, s1)"
    by (cases "take_step_in_env K ob s")
  note fa = take_step_frame [OF a]
  show ?case
  proof (cases r1)
    case (Inl e)
    with Suc.prems a fa show ?thesis by simp
  next
    case (Inr ob1)
    obtain r2 s2 where b: "try_to_train K (emit (Stamp ''sample'') s1) = (r2, s2)"
      by (cases "try_to_train K (emit (Stamp ''sample'') s1)")
    have fb: "config s2 = config s" "persisted (trace s2) = persisted (trace s)"
      "updates_in (trace s) \<le> updates_in (trace s2)"
      using try_to_train_frame [OF b] fa by (simp_all add: config_def emit_def)
    show ?thesis
    proof (cases r2)
      case (Inl e)
      with Suc.prems a b Inr fb show ?thesis by simp
    next
      case r: (Inr u)
      from Suc.prems a b Inr r
      have "online_steps K n ob1 (emit (Stamp ''train'') s2) = (r, s')" by simp
      from Suc.IH [OF this] fb show ?thesis by (simp add: config_def emit_def)
    qed
  qed
qed

lemma batch_steps_frame:
  "batch_steps K n ob s = (r, s') \<Longrightarrow>
     config s' = config s \<and> persisted (trace s') = persisted (trace s)
     \<and> updates_in (trace s') = updates_in (trace s)"
proof (induction n arbitrary: ob s)
  case 0
  then show ?case by simp
next
  case (Suc n)
  obtain r1 s1 where a: "take_step_in_env K ob s = (r1, s1)"
    by (cases "take_step_in_env K ob s")
  note fa = take_step_frame [OF a]
  show ?case
  proof (cases r1)
    case (Inl e)
    with Suc.prems a fa show ?thesis by simp
  next
    case (Inr ob1)
    with Suc.prems a have "batch_steps K n ob1 s1 = (r, s')" by simp
    from Suc.IH [OF this] fa show ?thesis by simp
  qed
qed

lemma online_steps_schedule:
  "online_steps K n ob s = (Inr ob', s') \<Longrightarrow>
     schedule (trace s') = schedule (trace s)
       @ concat (replicate n [StepTaken, Stamped ''sample'', BufferAsked, Stamped ''train''])"
proof (induction n arbitrary: ob s)
  case 0
  then show ?case by simp
next
  case (Suc n)
  from Suc.prems obtain ob1 s1 u s2 where
    a: "take_step_in_env K ob s = (Inr ob1, s1)"
    and b: "try_to_train K (emit (Stamp ''sample'') s1) = (Inr u, s2)"
    and c: "online_steps K n ob1 (emit (Stamp ''train'') s2) = (Inr ob', s')"
    by (auto split: and_then_split_asm)
  from take_step_frame(2) [OF a] try_to_train_schedule [OF b] Suc.IH [OF c]
  show ?case by (simp add: emit_def)
qed

lemma batch_steps_schedule:
  "batch_steps K n ob s = (Inr ob', s') \<Longrightarrow>
     schedule (trace s') = schedule (trace s) @ replicate n StepTaken"
proof (induction n arbitrary: ob s)
  case 0
  then show ?case by simp
next
  case (Suc n)
  from Suc.prems obtain ob1 s1 where
    a: "take_step_in_env K ob s = (Inr ob1, s1)"
    and c: "batch_steps K n ob1 s1 = (Inr ob', s')"
    by (auto split: and_then_split_asm)
  from take_step_frame(2) [OF a] Suc.IH [OF c]
  show ?case by simp
qed

text \<open>A loop or an epoch that raises stops somewhere in its schedule.\<close>

lemma online_steps_prefix:
  "online_steps K n ob s = (r, s') \<Longrightarrow>
     prefix (schedule (trace s'))
       (schedule (trace s)
        @ concat (replicate n [StepTaken, Stamped ''sample'', BufferAsked, Stamped ''train'']))"
proof (induction n arbitrary: ob s)
  case 0
  then show ?case by simp
next
  case (Suc n)
  obtain r1 s1 where a: "take_step_in_env K ob s = (r1, s1)"
    by (cases "take_step_in_env K ob s")
  note fa = take_step_frame(2) [OF a]
  show ?case
  proof (cases r1)
    case (Inl e)
    with Suc.prems a fa show ?thesis by simp
  next
    case (Inr ob1)
    obtain r2 s2 where b: "try_to_train K (emit (Stamp ''sample'') s1) = (r2, s2)"
      by (cases "try_to_train K (emit (Stamp ''sample'') s1)")
    show ?thesis
    proof (cases r2)
      case (Inl e)
      with Suc.prems a b Inr have "s' = s2" by simp
      with try_to_train_schedule_any [OF b] fa show ?thesis
        by (auto simp: emit_def)
    next
      case r: (Inr u)
      from Suc.prems a b Inr r
      have "online_steps K n ob1 (emit (Stamp ''train'') s2) = (r, s')" by simp
      from Suc.IH [OF this] try_to_train_schedule [of K _ u s2] b r fa show ?thesis
        by (simp add: emit_def)
    qed
  qed
qed

lemma batch_steps_prefix:
  "batch_steps K n ob s = (r, s') \<Longrightarrow>
     prefix (schedule (trace s')) (schedule (trace s) @ replicate n StepTaken)"
proof (induction n arbitrary: ob s)
  case 0
  then show ?case by simp
next
  case (Suc n)
  obtain r1 s1 where a: "take_step_in_env K ob s = (r1, s1)"
    by (cases "take_step_in_env K ob s")
  note fa = take_step_frame(2) [OF a]
  show ?case
  proof (cases r1)
    case (Inl e)
    with Suc.prems a fa show ?thesis by simp
  next
    case (Inr ob1)
    with Suc.prems a have "batch_steps K n ob1 s1 = (r, s')" by simp
    from Suc.IH [OF this] fa show ?thesis by simp
  qed
qed


lemma online_epoch_prefix:
  "prefix (schedule (trace (snd (online_epoch K epoch s))))
     (schedule (trace s)
      @ concat (replicate (nat (num_env_steps_per_epoch s))
                  [StepTaken, Stamped ''sample'', BufferAsked, Stamped ''train''])
      @ [Stamped ''eval'', BufferAsked])"
proof -
  obtain ob s1 where e: "start_new_rollout K (set_to_train_mode K (start_epoch epoch s)) = (ob, s1)"
    by (cases "start_new_rollout K (set_to_train_mode K (start_epoch epoch s))")
  note fe = epoch_entry_frame [OF e]
  have n1: "num_env_steps_per_epoch s1 = num_env_steps_per_epoch s"
    using fe(1) by (simp add: config_def)
  let ?loops = "concat (replicate (nat (num_env_steps_per_epoch s))
                  [StepTaken, Stamped ''sample'', BufferAsked, Stamped ''train''])"
  obtain r2 s2 where a: "online_steps K (nat (num_env_steps_per_epoch s)) ob s1 = (r2, s2)"
    by (cases "online_steps K (nat (num_env_steps_per_epoch s)) ob s1")
  from online_steps_prefix [OF a] fe(2)
  have p2: "prefix (schedule (trace s2)) (schedule (trace s) @ ?loops)" by simp
  then have p2': "prefix (schedule (trace s2))
                    ((schedule (trace s) @ ?loops) @ [Stamped ''eval'', BufferAsked])"
    by (rule prefix_prefix)
  show ?thesis
  proof (cases r2)
    case (Inl x)
    with e n1 a have "online_epoch K epoch s = (Inl x, s2)" by (simp add: online_epoch_def)
    with p2' show ?thesis by simp
  next
    case (Inr ob2)
    from online_steps_schedule [of K _ ob s1 ob2 s2] a Inr fe(2)
    have q2: "schedule (trace s2) = schedule (trace s) @ ?loops" by simp
    obtain r3 s3 where b: "try_to_eval K epoch None (set_to_eval_mode K s2) = (r3, s3)"
      by (cases "try_to_eval K epoch None (set_to_eval_mode K s2)")
    have q3: "schedule (trace s3) = schedule (trace s) @ ?loops"
      using try_to_eval_frame(2) [OF b] q2 by (simp add: set_to_eval_mode_def emit_def)
    show ?thesis
    proof (cases r3)
      case (Inl x)
      with e n1 a Inr b have "online_epoch K epoch s = (Inl x, s3)"
        by (simp add: online_epoch_def)
      with q3 show ?thesis by simp
    next
      case r3: (Inr u)
      with e n1 a Inr b
      have "online_epoch K epoch s = (Inr (), end_epoch K epoch (emit (Stamp ''eval'') s3))"
        by (simp add: online_epoch_def)
      with q3 show ?thesis by (simp add: end_epoch_frame emit_def)
    qed
  qed
qed

lemma batch_epoch_prefix:
  "prefix (schedule (trace (snd (batch_epoch K epoch s))))
     (schedule (trace s)
      @ replicate (nat (num_env_steps_per_epoch s)) StepTaken
      @ [Stamped ''sample'', BufferAsked, Stamped ''train'']
      @ (if epoch mod num_epochs_per_eval s = 0 then [Stamped ''eval''] else [])
      @ [BufferAsked])"
proof -
  obtain ob s1 where e: "start_new_rollout K (set_to_train_mode K (start_epoch epoch s)) = (ob, s1)"
    by (cases "start_new_rollout K (set_to_train_mode K (start_epoch epoch s))")
  note fe = epoch_entry_frame [OF e]
  have n1: "num_env_steps_per_epoch s1 = num_env_steps_per_epoch s"
    using fe(1) by (simp add: config_def)
  let ?steps = "replicate (nat (num_env_steps_per_epoch s)) StepTaken"
  let ?tail = "(if epoch mod num_epochs_per_eval s = 0 then [Stamped ''eval''] else [])
               @ [BufferAsked]"
  obtain r2 s2 where a: "batch_steps K (nat (num_env_steps_per_epoch s)) ob s1 = (r2, s2)"
    by (cases "batch_steps K (nat (num_env_steps_per_epoch s)) ob s1")
  from batch_steps_prefix [OF a] fe(2)
  have p2: "prefix (schedule (trace s2)) (schedule (trace s) @ ?steps)" by simp
  show ?thesis
  proof (cases r2)
    case (Inl x)
    with e n1 a have "batch_epoch K epoch s = (Inl x, s2)" by (simp add: batch_epoch_def)
    moreover from p2 have "prefix (schedule (trace s2))
        ((schedule (trace s) @ ?steps)
         @ [Stamped ''sample'', BufferAsked, Stamped ''train''] @ ?tail)"
      by (rule prefix_prefix)
    ultimately show ?thesis by simp
  next
    case (Inr ob2)
    from batch_steps_schedule [of K _ ob s1 ob2 s2] a Inr fe(2)
    have q2: "schedule (trace s2) = schedule (trace s) @ ?steps" by simp
    obtain r3 s3 where b: "try_to_train K (emit (Stamp ''sample'') s2) = (r3, s3)"
      by (cases "try_to_train K (emit (Stamp ''sample'') s2)")
    show ?thesis
    proof (cases r3)
      case (Inl x)
      with e n1 a Inr b have "batch_epoch K epoch s = (Inl x, s3)"
        by (simp add: batch_epoch_def)
      with try_to_train_schedule_any [OF b] q2 show ?thesis
        by (auto simp: emit_def)
    next
      case r3: (Inr u)
      let ?s4 = "set_to_eval_mode K (emit (Stamp ''train'') s3)"
      have c3: "config s3 = config s"
        using try_to_train_frame(1) [OF b] batch_steps_frame [OF a] fe(1)
        by (simp add: config_def emit_def)
      then have pe: "num_epochs_per_eval ?s4 = num_epochs_per_eval s"
        by (simp add: config_def set_to_eval_mode_def emit_def)
      have q4: "schedule (trace ?s4) = schedule (trace s) @ ?steps
                  @ [Stamped ''sample'', BufferAsked, Stamped ''train'']"
        using try_to_train_schedule [of K _ u s3] b r3 q2
        by (simp add: set_to_eval_mode_def emit_def)
      obtain r5 s5 where d: "try_to_eval K epoch None ?s4 = (r5, s5)"
        by (cases "try_to_eval K epoch None ?s4")
      have q5: "schedule (trace s5) = schedule (trace ?s4)"
        using try_to_eval_frame(2) [OF d] .
      from e n1 a Inr b r3 d pe q4 q5 show ?thesis
        by (cases r5)
           (auto simp: batch_epoch_def py_mod_def end_epoch_frame emit_def Let_def
             split: if_splits)
    qed
  qed
qed

lemma online_epoch_persisted:
  assumes "mpi_rank K = None" and "online_epoch K epoch s = (r, s')"
  shows "persisted (trace s') = persisted (trace s)"
proof -
  obtain ob s1 where e: "start_new_rollout K (set_to_train_mode K (start_epoch epoch s)) = (ob, s1)"
    by (cases "start_new_rollout K (set_to_train_mode K (start_epoch epoch s))")
  note fe = epoch_entry_frame(5) [OF e]
  obtain r2 s2 where a: "online_steps K (nat (num_env_steps_per_epoch s1)) ob s1 = (r2, s2)"
    by (cases "online_steps K (nat (num_env_steps_per_epoch s1)) ob s1")
  from online_steps_frame [OF a] fe have p2: "persisted (trace s2) = persisted (trace s)"
    by simp
  show ?thesis
  proof (cases r2)
    case (Inl x)
    with assms(2) e a p2 show ?thesis by (simp add: online_epoch_def)
  next
    case (Inr ob2)
    obtain r3 s3 where b: "try_to_eval K epoch None (set_to_eval_mode K s2) = (r3, s3)"
      by (cases "try_to_eval K epoch None (set_to_eval_mode K s2)")
    from try_to_eval_persisted [OF assms(1) b] p2
    have p3: "persisted (trace s3) = persisted (trace s)"
      by (simp add: set_to_eval_mode_def emit_def)
    from assms(2) e a Inr b p3 show ?thesis
      by (cases r3) (auto simp: online_epoch_def end_epoch_frame emit_def)
  qed
qed

lemma batch_epoch_persisted:
  assumes "mpi_rank K = None" and "batch_epoch K epoch s = (r, s')"
  shows "persisted (trace s') = persisted (trace s)"
proof -
  obtain ob s1 where e: "start_new_rollout K (set_to_train_mode K (start_epoch epoch s)) = (ob, s1)"
    by (cases "start_new_rollout K (set_to_train_mode K (start_epoch epoch s))")
  note fe = epoch_entry_frame(5) [OF e]
  obtain r2 s2 where a: "batch_steps K (nat (num_env_steps_per_epoch s1)) ob s1 = (r2, s2)"
    by (cases "batch_steps K (nat (num_env_steps_per_epoch s1)) ob s1")
  from batch_steps_frame [OF a] fe have p2: "persisted (trace s2) = persisted (trace s)"
    by simp
  show ?thesis
  proof (cases r2)
    case (Inl x)
    with assms(2) e a p2 show ?thesis by (simp add: batch_epoch_def)
  next
    case (Inr ob2)
    obtain r3 s3 where b: "try_to_train K (emit (Stamp ''sample'') s2) = (r3, s3)"
      by (cases "try_to_train K (emit (Stamp ''sample'') s2)")
    from try_to_train_frame(3) [OF b] p2
    have p3: "persisted (trace s3) = persisted (trace s)"
      by (simp add: emit_def)
    show ?thesis
    proof (cases r3)
      case (Inl x)
      with assms(2) e a Inr b p3 show ?thesis by (simp add: batch_epoch_def)
    next
      case r3: (Inr u)
      let ?s4 = "set_to_eval_mode K (emit (Stamp ''train'') s3)"
      have p4: "persisted (trace ?s4) = persisted (trace s)"
        using p3 by (simp add: set_to_eval_mode_def emit_def)
      obtain r5 s5 where d: "try_to_eval K epoch None ?s4 = (r5, s5)"
        by (cases "try_to_eval K epoch None ?s4")
      from try_to_eval_persisted [OF assms(1) d] p4
      have p5: "persisted (trace s5) = persisted (trace s)" by simp
      from assms(2) e a Inr b r3 d p4 p5 show ?thesis
        by (cases r5)
           (auto simp: batch_epoch_def py_mod_def end_epoch_frame emit_def Let_def
             split: if_splits)
    qed
  qed
qed

lemma run_epochs_persisted:
  assumes "\<And>epoch s r s'. body epoch s = (r, s') \<Longrightarrow> persisted (trace s') = persisted (trace s)"
  shows "run_epochs body epochs s = (r, s') \<Longrightarrow> persisted (trace s') = persisted (trace s)"
proof (induction epochs arbitrary: s)
  case Nil
  then show ?case by simp
next
  case (Cons epoch epochs)
  obtain r1 s1 where a: "body epoch s = (r1, s1)" by (cases "body epoch s")
  from assms [OF a] have p1: "persisted (trace s1) = persisted (trace s)" .
  show ?case
  proof (cases r1)
    case (Inl e)
    with Cons.prems a p1 show ?thesis by simp
  next
    case (Inr u)
    with Cons.prems a have "run_epochs body epochs s1 = (r, s')" by simp
    from Cons.IH [OF this] p1 show ?thesis by simp
  qed
qed

lemma train_setup_persisted:
  "mpi_rank K = None \<Longrightarrow> persisted (trace (train_setup K start s)) = persisted (trace s)"
  by (simp add: train_setup_def emit_def Let_def)

subsection \<open>A replay buffer that counts its samples\<close>

lemma counting_waits:
  assumes counting: "\<And>tr. num_steps_can_sample K tr = int (samples_in tr)"
    and dev: "get_mode K = Some ''gpu_opt'' \<longrightarrow> gpu_id s \<noteq> None"
    and low: "int (samples_in (trace s)) < min_num_steps_before_training s"
  shows "\<exists>s'. try_to_train K s = (Inr (), s') \<and> updates_in (trace s') = updates_in (trace s)"
proof -
  from acquire_device_ok [OF dev] obtain s1 where acq: "acquire_device K s = (Inr (), s1)" ..
  note f = acquire_device_frame [OF acq]
  from low f(2) counting have "num_steps_can_sample K (trace s1) < min_num_steps_before_training s"
    by simp
  from try_to_train_waits [OF acq this] f(3) show ?thesis
    by (simp add: release_device_def emit_def)
qed

lemma counting_trains:
  assumes counting: "\<And>tr. num_steps_can_sample K tr = int (samples_in tr)"
    and dev: "get_mode K = Some ''gpu_opt'' \<longrightarrow> gpu_id s \<noteq> None"
    and ready: "min_num_steps_before_training s \<le> int (samples_in (trace s))"
    and pos: "0 < num_updates_per_train_call s"
  shows "updates_in (trace s) < updates_in (trace (snd (try_to_train K s)))"
proof -
  from acquire_device_ok [OF dev] obtain s1 where acq: "acquire_device K s = (Inr (), s1)" ..
  note f = acquire_device_frame [OF acq]
  from ready f(2) counting have "min_num_steps_before_training s \<le> num_steps_can_sample K (trace s1)"
    by simp
  from try_to_train_trains [OF acq this pos] show ?thesis .
qed

lemma batch_collects:
  assumes mask: "handle_step_takes_mask K"
  shows "\<exists>ob' s'. batch_steps K k ob s = (Inr ob', s')
           \<and> samples_in (trace s') = samples_in (trace s) + k"
proof (induction k arbitrary: ob s)
  case 0
  show ?case by simp
next
  case (Suc k)
  obtain r1 s1 where a: "take_step_in_env K ob s = (r1, s1)"
    by (cases "take_step_in_env K ob s")
  from take_step_samples [OF mask a] obtain ob1 where
    r1: "r1 = Inr ob1" and n1: "samples_in (trace s1) = samples_in (trace s) + 1" by blast
  from Suc.IH [of ob1 s1] obtain ob' s' where
    "batch_steps K k ob1 s1 = (Inr ob', s')" "samples_in (trace s') = samples_in (trace s1) + k"
    by blast
  with a r1 n1 show ?case by simp
qed

lemma online_below:
  assumes counting: "\<And>tr. num_steps_can_sample K tr = int (samples_in tr)"
    and mask: "handle_step_takes_mask K"
  shows "get_mode K = Some ''gpu_opt'' \<longrightarrow> gpu_id s \<noteq> None \<Longrightarrow>
         int (samples_in (trace s)) + int k < min_num_steps_before_training s \<Longrightarrow>
         \<exists>ob' s'. online_steps K k ob s = (Inr ob', s')
           \<and> updates_in (trace s') = updates_in (trace s)"
proof (induction k arbitrary: ob s)
  case 0
  show ?case by simp
next
  case (Suc k)
  obtain r1 s1 where a: "take_step_in_env K ob s = (r1, s1)"
    by (cases "take_step_in_env K ob s")
  from take_step_samples [OF mask a] obtain ob1 where
    r1: "r1 = Inr ob1" and n1: "samples_in (trace s1) = samples_in (trace s) + 1" by blast
  note f1 = take_step_frame [OF a]
  let ?t = "emit (Stamp ''sample'') s1"
  have t: "config ?t = config s" "samples_in (trace ?t) = samples_in (trace s) + 1"
    "updates_in (trace ?t) = updates_in (trace s)"
    using f1 n1 by (simp_all add: emit_def config_def)
  have dev_t: "get_mode K = Some ''gpu_opt'' \<longrightarrow> gpu_id ?t \<noteq> None"
    using Suc.prems(1) t(1) by (simp add: config_def)
  have low_t: "int (samples_in (trace ?t)) < min_num_steps_before_training ?t"
    using Suc.prems(2) t by (simp add: config_def)
  from counting_waits [OF counting dev_t low_t] obtain s2 where
    b: "try_to_train K ?t = (Inr (), s2)" and u2: "updates_in (trace s2) = updates_in (trace ?t)"
    by blast
  note f2 = try_to_train_frame [OF b]
  let ?u = "emit (Stamp ''train'') s2"
  have u: "config ?u = config s" "samples_in (trace ?u) = samples_in (trace s) + 1"
    "updates_in (trace ?u) = updates_in (trace s)"
    using f2 t u2 by (simp_all add: emit_def config_def)
  have dev_u: "get_mode K = Some ''gpu_opt'' \<longrightarrow> gpu_id ?u \<noteq> None"
    using Suc.prems(1) u(1) by (simp add: config_def)
  have low_u: "int (samples_in (trace ?u)) + int k < min_num_steps_before_training ?u"
    using Suc.prems(2) u by (simp add: config_def)
  from Suc.IH [OF dev_u low_u, of ob1] obtain ob' s' where
    "online_steps K k ob1 ?u = (Inr ob', s')" "updates_in (trace s') = updates_in (trace ?u)"
    by blast
  with a r1 b u(3) show ?case by simp
qed

lemma online_reaches:
  assumes counting: "\<And>tr. num_steps_can_sample K tr = int (samples_in tr)"
    and mask: "handle_step_takes_mask K"
  shows "get_mode K = Some ''gpu_opt'' \<longrightarrow> gpu_id s \<noteq> None \<Longrightarrow>
         int (samples_in (trace s)) + int k = min_num_steps_before_training s \<Longrightarrow>
         0 < k \<Longrightarrow> 0 < num_updates_per_train_call s \<Longrightarrow>
         updates_in (trace s) < updates_in (trace (snd (online_steps K k ob s)))"
proof (induction k arbitrary: ob s)
  case 0
  then show ?case by simp
next
  case (Suc k)
  obtain r1 s1 where a: "take_step_in_env K ob s = (r1, s1)"
    by (cases "take_step_in_env K ob s")
  from take_step_samples [OF mask a] obtain ob1 where
    r1: "r1 = Inr ob1" and n1: "samples_in (trace s1) = samples_in (trace s) + 1" by blast
  note f1 = take_step_frame [OF a]
  let ?t = "emit (Stamp ''sample'') s1"
  have t: "config ?t = config s" "samples_in (trace ?t) = samples_in (trace s) + 1"
    "updates_in (trace ?t) = updates_in (trace s)"
    using f1 n1 by (simp_all add: emit_def config_def)
  have dev_t: "get_mode K = Some ''gpu_opt'' \<longrightarrow> gpu_id ?t \<noteq> None"
    using Suc.prems(1) t(1) by (simp add: config_def)
  obtain r2 s2 where b: "try_to_train K ?t = (r2, s2)"
    by (cases "try_to_train K ?t")
  note f2 = try_to_train_frame [OF b]
  let ?u = "emit (Stamp ''train'') s2"
  show ?case
  proof (cases k)
    case 0
    have ready: "min_num_steps_before_training ?t \<le> int (samples_in (trace ?t))"
      using Suc.prems(2) t 0 by (simp add: config_def)
    have pos: "0 < num_updates_per_train_call ?t"
      using Suc.prems(4) t(1) by (simp add: config_def)
    from counting_trains [OF counting dev_t ready pos] b t(3)
    have "updates_in (trace s) < updates_in (trace s2)" by simp
    with a r1 b 0 show ?thesis by (cases r2) (simp_all add: emit_def)
  next
    case (Suc j)
    have low_t: "int (samples_in (trace ?t)) < min_num_steps_before_training ?t"
      using Suc.prems(2) t Suc by (simp add: config_def)
    from counting_waits [OF counting dev_t low_t] b
    have r2: "r2 = Inr ()" and u2: "updates_in (trace s2) = updates_in (trace ?t)"
      by simp_all
    have u: "config ?u = config s" "samples_in (trace ?u) = samples_in (trace s) + 1"
      "updates_in (trace ?u) = updates_in (trace s)"
      using f2 t u2 by (simp_all add: emit_def config_def)
    have dev_u: "get_mode K = Some ''gpu_opt'' \<longrightarrow> gpu_id ?u \<noteq> None"
      using Suc.prems(1) u(1) by (simp add: config_def)
    have eq_u: "int (samples_in (trace ?u)) + int k = min_num_steps_before_training ?u"
      using Suc.prems(2) u by (simp add: config_def)
    have pos_u: "0 < num_updates_per_train_call ?u"
      using Suc.prems(4) u(1) by (simp add: config_def)
    from Suc.IH [OF dev_u eq_u _ pos_u, of ob1] Suc
    have "updates_in (trace ?u) < updates_in (trace (snd (online_steps K k ob1 ?u)))" by simp
    with a r1 b r2 u(3) show ?thesis by simp
  qed
qed

lemma init_default_threshold:
  assumes "init K a = Inr s" and "arg_min_num_steps_before_training a = None"
  shows "min_num_steps_before_training s = num_env_steps_per_epoch s" and "trace s = []"
  using assms
  by (auto simp: init_def split: if_splits option.splits sum.splits)

section \<open>The example runs\<close>

lemma small_state_eq:
  "small_state =
     \<lparr>num_epochs = 1, num_env_steps_per_epoch = 2, num_updates_per_train_call = 1,
      max_path_length = 3, reward_scale = 1, render = False,
      collection_mode = ''online'', save_replay_buffer = False, save_algorithm = False,
      save_environment = True, min_num_steps_before_training = 2, eval_statistics = [],
      need_to_update_eval_statistics = True, n_env_steps_total = 0,
      n_train_steps_total = 0, n_rollouts_total = 0, do_train_time = 0,
      old_table_keys = None, current_path_builder = [], exploration_paths = [],
      post_epoch_funcs = [], save_extra_data_interval = 100000, gpu_id = None,
      num_epochs_per_eval = 10, num_epochs_per_param_save = 100, trace = []\<rparr>"
  by (simp add: small_state_def init_def plain_collab_def small_args_def default_args_def
      py_mod_def)

lemma gpu_state_eq:
  "gpu_state = small_state\<lparr>min_num_steps_before_training := 0, gpu_id := Some 0\<rparr>"
  by (simp add: small_state_eq gpu_state_def init_def gpu_collab_def plain_collab_def
      small_args_def default_args_def py_mod_def truthy_def)

lemma small_batch_state_eq:
  "small_batch_state = small_state\<lparr>collection_mode := ''batch''\<rparr>"
  by (simp add: small_state_eq small_batch_state_def init_def plain_collab_def small_args_def
      default_args_def py_mod_def)

lemmas run_defs =
  train_def train_setup_def train_online_def train_batch_def online_epoch_def batch_epoch_def
  start_epoch_def end_epoch_def set_to_train_mode_def set_to_eval_mode_def
  start_new_rollout_def take_step_in_env_def sample_step_def get_action_and_info_def
  handle_step_def handle_rollout_ending_def try_to_train_def acquire_device_def
  release_device_def can_train_def do_training_call_def try_to_eval_def save_checkpoints_def
  can_evaluate_def py_mod_def emit_def Let_def

lemma small_online_epoch:
  "online_epoch plain_collab 0 small_state =
     (Inr (),
      small_state
        \<lparr>need_to_update_eval_statistics := False, n_env_steps_total := 2,
         n_train_steps_total := 1, current_path_builder := [a_transition, a_transition],
         trace :=
           [PushPrefix 0, PolicyReset, EnvReset,
            SetNumStepsTotal 0, GetAction 0, EnvStep 0, AddSample a_transition,
            Stamp ''sample'', NumStepsCanSample, Stamp ''train'',
            SetNumStepsTotal 1, GetAction 0, EnvStep 0, AddSample a_transition,
            Stamp ''sample'', NumStepsCanSample, TrainingMode True, DoTraining,
            TrainingMode False, Stamp ''train'',
            Log ''Skipping eval for now.'', Stamp ''eval'', Log ''Epoch Duration'',
            NumStepsCanSample, Log ''Started Training: True'', PopPrefix]\<rparr>)"
  by (simp add: run_defs plain_collab_def small_state_eq a_transition_def numeral_2_eq_2)

lemma small_batch_epoch:
  "batch_epoch plain_collab 0 small_batch_state =
     (Inr (),
      small_batch_state
        \<lparr>need_to_update_eval_statistics := False, n_env_steps_total := 2,
         n_train_steps_total := 1, current_path_builder := [a_transition, a_transition],
         trace :=
           [PushPrefix 0, PolicyReset, EnvReset,
            SetNumStepsTotal 0, GetAction 0, EnvStep 0, AddSample a_transition,
            SetNumStepsTotal 1, GetAction 0, EnvStep 0, AddSample a_transition,
            Stamp ''sample'', NumStepsCanSample, TrainingMode True, DoTraining,
            TrainingMode False, Stamp ''train'',
            Log ''Skipping eval for now.'', Stamp ''eval'', Log ''Epoch Duration'',
            NumStepsCanSample, Log ''Started Training: True'', PopPrefix]\<rparr>)"
  by (simp add: run_defs plain_collab_def small_batch_state_eq small_state_eq a_transition_def
      numeral_2_eq_2)

lemma small_online_train:
  "train plain_collab 0 small_state =
     (Inr (),
      (snd (online_epoch plain_collab 0 small_state))
        \<lparr>trace := [TrainingMode False, GtReset]
                   @ trace (snd (online_epoch plain_collab 0 small_state))\<rparr>)"
  by (simp add: small_online_epoch)
     (simp add: run_defs plain_collab_def small_state_eq a_transition_def numeral_2_eq_2)

lemma small_batch_train:
  "train plain_collab 0 small_batch_state =
     (Inr (),
      (snd (batch_epoch plain_collab 0 small_batch_state))
        \<lparr>trace := [TrainingMode False, GtReset]
                   @ trace (snd (batch_epoch plain_collab 0 small_batch_state))\<rparr>)"
  by (simp add: small_batch_epoch)
     (simp add: run_defs plain_collab_def small_batch_state_eq small_state_eq a_transition_def
        numeral_2_eq_2)

lemma failing_run:
  "try_to_train failing_collab gpu_state =
     (Inl UpdateError,
      gpu_state\<lparr>trace := [SetDevice (Cuda 0), To (Cuda 0), NumStepsCanSample,
                           TrainingMode True, DoTraining]\<rparr>)"
  by (simp add: try_to_train_def acquire_device_def can_train_def do_training_call_def
      failing_collab_def gpu_collab_def plain_collab_def gpu_state_eq small_state_eq emit_def)

text \<open>
  A step of the example environment from the fresh state: with a path length of 3 the
  rollout goes on, with a path length of 1 it ends.
\<close>

lemma sample_step_example:
  "sample_step plain_collab 0 (small_state\<lparr>max_path_length := m\<rparr>)
     = (Inr (0, False), stepped (small_state\<lparr>max_path_length := m\<rparr>))"
  by (simp add: sample_step_def get_action_and_info_def handle_step_def plain_collab_def
      small_state_eq stepped_def a_transition_def emit_def Let_def)

lemma report_row_example:
  "report_row plain_collab 0 None (eval_ready keys) =
     (eval_ready keys)
       \<lparr>need_to_update_eval_statistics := True,
        trace := [Log ''Collecting samples for evaluation'', ObtainSamples,
                  RecordTabular ''AverageReturn'',
                  RecordTabular ''Number of train steps total'',
                  RecordTabular ''Number of env steps total'',
                  RecordTabular ''Number of rollouts total'',
                  GetTimes, SeedEvalTime, GetTimes,
                  RecordTabular ''Train Time (s) ---'',
                  RecordTabular ''(Previous) Eval Time (s) ---'',
                  RecordTabular ''Sample Time (s) ---'',
                  RecordTabular ''Epoch Time (s)'',
                  RecordTabular ''Total Train Time (s)'',
                  RecordTabular ''Epoch'']\<rparr>"
  by (simp add: report_row_def evaluate_def od_update_def record_tabular_def plain_collab_def
      eval_ready_def small_state_eq emit_def Let_def)

lemma report_row_example_keys:
  "get_table_key_set (trace (report_row plain_collab 0 None (eval_ready keys))) = report_keys"
  by (simp add: report_row_example get_table_key_set_def report_keys_def)

lemma eval_ready_checkpoints:
  "save_checkpoints plain_collab epoch (eval_ready keys) = (Inr (), eval_ready keys)"
  by (simp add: save_checkpoints_no_mpi plain_collab_def)

lemma report_keys_not_epoch: "report_keys \<noteq> {''Epoch''}"
proof -
  have "''AverageReturn'' \<in> report_keys" by (simp add: report_keys_def)
  moreover have "''AverageReturn'' \<notin> {''Epoch''}" by simp
  ultimately show ?thesis by metis
qed

section \<open>The training phase\<close>

text \<open>
  C1. Take a call of \<^verbatim>\<open>_try_to_train\<close> that gets past its first lines (outside the mode
  \<^verbatim>\<open>gpu_opt\<close> always; in that mode when \<^verbatim>\<open>gpu_id\<close> exists). It goes on to train
  (\<^verbatim>\<open>training_mode(True)\<close>, the loop of \<^verbatim>\<open>num_updates_per_train_call\<close> updates,
  \<^verbatim>\<open>training_mode(False)\<close>) if and only if the number that \<^verbatim>\<open>num_steps_can_sample()\<close>
  reports is at least \<^verbatim>\<open>min_num_steps_before_training\<close>. Training, it performs at least
  one update when \<^verbatim>\<open>num_updates_per_train_call\<close> is positive, and exactly that many,
  each counted in the train step counter, when none of them raises. So with a positive
  count it performs update operations if and only if the buffer reports at least the
  threshold: it does at exactly the threshold, and one below (as for every smaller
  number) it performs none, returns without an exception and leaves the step counter
  alone; all it does then is ask the buffer and move the components back where the mode
  asks for it.
\<close>

theorem try_to_train_gate:
  assumes acq: "acquire_device K s = (Inr (), s1)"
  shows "(training_starts_in (trace (snd (try_to_train K s))) = training_starts_in (trace s) + 1
           \<longleftrightarrow> min_num_steps_before_training s \<le> num_steps_can_sample K (trace s1))
       \<and> (0 < num_updates_per_train_call s \<longrightarrow>
            (updates_in (trace s) < updates_in (trace (snd (try_to_train K s)))
              \<longleftrightarrow> min_num_steps_before_training s \<le> num_steps_can_sample K (trace s1)))
       \<and> (min_num_steps_before_training s \<le> num_steps_can_sample K (trace s1)
            \<and> fst (try_to_train K s) = Inr () \<longrightarrow>
            updates_in (trace (snd (try_to_train K s)))
              = updates_in (trace s) + nat (num_updates_per_train_call s)
            \<and> n_train_steps_total (snd (try_to_train K s))
              = n_train_steps_total s + int (nat (num_updates_per_train_call s)))
       \<and> (num_steps_can_sample K (trace s1) = min_num_steps_before_training s \<longrightarrow>
            training_starts_in (trace (snd (try_to_train K s))) = training_starts_in (trace s) + 1
            \<and> (0 < num_updates_per_train_call s \<longrightarrow>
                 updates_in (trace s) < updates_in (trace (snd (try_to_train K s)))))
       \<and> (num_steps_can_sample K (trace s1) = min_num_steps_before_training s - 1 \<longrightarrow>
            training_starts_in (trace (snd (try_to_train K s))) = training_starts_in (trace s)
            \<and> updates_in (trace (snd (try_to_train K s))) = updates_in (trace s)
            \<and> fst (try_to_train K s) = Inr ())
       \<and> (num_steps_can_sample K (trace s1) < min_num_steps_before_training s \<longrightarrow>
            try_to_train K s = release_device K (emit NumStepsCanSample s1)
            \<and> fst (try_to_train K s) = Inr ()
            \<and> training_starts_in (trace (snd (try_to_train K s))) = training_starts_in (trace s)
            \<and> updates_in (trace (snd (try_to_train K s))) = updates_in (trace s)
            \<and> n_train_steps_total (snd (try_to_train K s)) = n_train_steps_total s)"
proof -
  have cfg: "min_num_steps_before_training s1 = min_num_steps_before_training s"
    "num_updates_per_train_call s1 = num_updates_per_train_call s"
    "updates_in (trace s1) = updates_in (trace s)"
    "n_train_steps_total s1 = n_train_steps_total s"
    "training_starts_in (trace s1) = training_starts_in (trace s)"
    using acq by (auto simp: acquire_device_def emit_def split: if_splits option.splits)
  show ?thesis
  proof (cases "min_num_steps_before_training s \<le> num_steps_can_sample K (trace s1)")
    case False
    then have eq: "try_to_train K s = release_device K (emit NumStepsCanSample s1)"
      using acq cfg by (simp add: try_to_train_def can_train_def)
    have "updates_in (trace (snd (try_to_train K s))) = updates_in (trace s)"
      using cfg by (simp add: eq release_device_updates emit_def)
    moreover have "n_train_steps_total (snd (try_to_train K s)) = n_train_steps_total s"
      using cfg by (simp add: eq release_device_def emit_def)
    moreover have "training_starts_in (trace (snd (try_to_train K s)))
                   = training_starts_in (trace s)"
      using cfg by (simp add: eq release_device_def emit_def)
    ultimately show ?thesis using False eq release_device_ok [of K] by simp
  next
    case True
    let ?s2 = "emit (TrainingMode True) (emit NumStepsCanSample s1)"
    let ?b = "update_burst K (nat (num_updates_per_train_call s)) ?s2"
    obtain x s3 where b: "?b = (x, s3)" by (cases ?b)
    have s2: "updates_in (trace ?s2) = updates_in (trace s)"
      "training_starts_in (trace ?s2) = training_starts_in (trace s) + 1"
      "n_train_steps_total ?s2 = n_train_steps_total s"
      using cfg by (simp_all add: emit_def)
    have n2: "num_updates_per_train_call (emit NumStepsCanSample s1)
              = num_updates_per_train_call s"
      using cfg by (simp add: emit_def)
    have st3: "training_starts_in (trace s3) = training_starts_in (trace s) + 1"
      using update_burst_starts [OF b] s2 by simp
    have le3: "updates_in (trace s) \<le> updates_in (trace s3)"
      using update_burst_frame [OF b] s2 by simp
    have lt3: "0 < num_updates_per_train_call s \<Longrightarrow> updates_in (trace s) < updates_in (trace s3)"
      using update_burst_pos [OF _ b] s2 by simp
    show ?thesis
    proof (cases x)
      case (Inl e)
      then have "try_to_train K s = (Inl e, s3)"
        using acq cfg True b n2 by (simp add: try_to_train_def can_train_def)
      with True st3 lt3 show ?thesis by auto
    next
      case (Inr u)
      then have eq: "try_to_train K s = release_device K (emit (TrainingMode False) s3)"
        using acq cfg True b n2 by (simp add: try_to_train_def can_train_def)
      have d: "updates_in (trace s3) = updates_in (trace s) + nat (num_updates_per_train_call s)"
        "n_train_steps_total s3
           = n_train_steps_total s + int (nat (num_updates_per_train_call s))"
        using update_burst_done [of K _ ?s2 u s3] b Inr s2 by simp_all
      have "updates_in (trace (snd (try_to_train K s))) = updates_in (trace s3)"
        "training_starts_in (trace (snd (try_to_train K s))) = training_starts_in (trace s3)"
        "n_train_steps_total (snd (try_to_train K s)) = n_train_steps_total s3"
        by (simp_all add: eq release_device_def emit_def)
      with True st3 lt3 d show ?thesis by auto
    qed
  qed
qed

theorem try_to_train_gate_witness:
  "acquire_device (reporting 2) small_state = (Inr (), small_state)
   \<and> acquire_device (reporting 1) small_state = (Inr (), small_state)
   \<and> 0 < num_updates_per_train_call small_state
   \<and> min_num_steps_before_training small_state = 2
   \<and> training_starts_in (trace (snd (try_to_train (reporting 2) small_state))) = 1
   \<and> updates_in (trace small_state)
       < updates_in (trace (snd (try_to_train (reporting 2) small_state)))
   \<and> try_to_train (reporting 1) small_state = (Inr (), emit NumStepsCanSample small_state)"
proof -
  have a2: "acquire_device (reporting 2) small_state = (Inr (), small_state)"
    and a1: "acquire_device (reporting 1) small_state = (Inr (), small_state)"
    by (simp_all add: acquire_device_def reporting_def plain_collab_def)
  have p: "0 < num_updates_per_train_call small_state"
    and m: "min_num_steps_before_training small_state = 2"
    and t: "training_starts_in (trace small_state) = 0"
    by (simp_all add: small_state_eq)
  have r: "release_device (reporting 1) (emit NumStepsCanSample small_state)
           = (Inr (), emit NumStepsCanSample small_state)"
    by (simp add: release_device_def reporting_def plain_collab_def)
  show ?thesis
    using try_to_train_gate [OF a2] try_to_train_gate [OF a1] a2 a1 p m t r
    by (simp add: reporting_def)
qed

text \<open>
  C2, as amended. Let \<^verbatim>\<open>min_num_steps_before_training\<close> be
  \<^verbatim>\<open>num_env_steps_per_epoch\<close>, its default, and let the replay buffer hold nothing yet and
  report the number of samples added to it. Then no update is performed before the last
  environment step of the epoch: the online loop performs none in any number of
  iterations below \<^verbatim>\<open>num_env_steps_per_epoch\<close>, and the batch collection performs none
  at all. The training phase after the last step finds exactly
  \<^verbatim>\<open>num_env_steps_per_epoch\<close> samples, which is the threshold, so with a positive
  \<^verbatim>\<open>num_updates_per_train_call\<close> the epoch does perform updates: the online epoch (of at
  least one step) as well as the batch epoch.
\<close>

theorem first_epoch_training:
  assumes counting: "\<forall>tr. num_steps_can_sample K tr = int (samples_in tr)"
    and mask: "handle_step_takes_mask K"
    and dev: "get_mode K = Some ''gpu_opt'' \<longrightarrow> gpu_id s \<noteq> None"
    and empty: "samples_in (trace s) = 0"
    and dflt: "min_num_steps_before_training s = num_env_steps_per_epoch s"
  shows "(\<forall>k ob. int k < num_env_steps_per_epoch s \<longrightarrow>
            (\<exists>ob'. fst (online_steps K k ob s) = Inr ob')
            \<and> updates_in (trace (snd (online_steps K k ob s))) = updates_in (trace s))
       \<and> (\<forall>k ob. (\<exists>ob'. fst (batch_steps K k ob s) = Inr ob')
            \<and> updates_in (trace (snd (batch_steps K k ob s))) = updates_in (trace s))
       \<and> (0 < num_env_steps_per_epoch s \<and> 0 < num_updates_per_train_call s \<longrightarrow>
            updates_in (trace s) < updates_in (trace (snd (online_epoch K epoch s))))
       \<and> (0 < num_updates_per_train_call s \<longrightarrow>
            updates_in (trace s) < updates_in (trace (snd (batch_epoch K epoch s))))"
proof (intro conjI allI impI)
  from counting have cnt: "\<And>tr. num_steps_can_sample K tr = int (samples_in tr)" by simp
  obtain ob0 s1 where e: "start_new_rollout K (set_to_train_mode K (start_epoch epoch s)) = (ob0, s1)"
    by (cases "start_new_rollout K (set_to_train_mode K (start_epoch epoch s))")
  note fe = epoch_entry_frame [OF e]
  have dev1: "get_mode K = Some ''gpu_opt'' \<longrightarrow> gpu_id s1 \<noteq> None"
    using dev fe(1) by (simp add: config_def)
  have c1: "num_env_steps_per_epoch s1 = num_env_steps_per_epoch s"
    "min_num_steps_before_training s1 = num_env_steps_per_epoch s"
    "num_updates_per_train_call s1 = num_updates_per_train_call s"
    using dflt fe(1) by (simp_all add: config_def)
  have empty1: "samples_in (trace s1) = 0"
    using empty fe(4) by simp
  {
    fix k :: nat and ob :: 'a
    assume "int k < num_env_steps_per_epoch s"
    with empty dflt have "int (samples_in (trace s)) + int k < min_num_steps_before_training s"
      by simp
    from online_below [OF cnt mask dev this, of ob] obtain ob' s' where
      r: "online_steps K k ob s = (Inr ob', s')" "updates_in (trace s') = updates_in (trace s)"
      by blast
    from r show "\<exists>ob'. fst (online_steps K k ob s) = Inr ob'" by simp
    from r show "updates_in (trace (snd (online_steps K k ob s))) = updates_in (trace s)"
      by simp
  }
  {
    fix k :: nat and ob :: 'a
    from batch_collects [OF mask, of k ob s] obtain ob' s' where
      r: "batch_steps K k ob s = (Inr ob', s')" by blast
    from r show "\<exists>ob'. fst (batch_steps K k ob s) = Inr ob'" by simp
    from batch_steps_frame [OF r] r
    show "updates_in (trace (snd (batch_steps K k ob s))) = updates_in (trace s)" by simp
  }
  {
    assume pos: "0 < num_env_steps_per_epoch s \<and> 0 < num_updates_per_train_call s"
    let ?n = "nat (num_env_steps_per_epoch s)"
    obtain r2 s2 where a: "online_steps K ?n ob0 s1 = (r2, s2)"
      by (cases "online_steps K ?n ob0 s1")
    have "int (samples_in (trace s1)) + int ?n = min_num_steps_before_training s1"
      using pos empty1 c1 by simp
    from online_reaches [OF cnt mask dev1 this, of ob0] pos c1 a fe(3)
    have lt: "updates_in (trace s) < updates_in (trace s2)" by simp
    show "updates_in (trace s) < updates_in (trace (snd (online_epoch K epoch s)))"
    proof (cases r2)
      case (Inl x)
      with e c1 a lt show ?thesis by (simp add: online_epoch_def)
    next
      case (Inr ob2)
      obtain r3 s3 where b: "try_to_eval K epoch None (set_to_eval_mode K s2) = (r3, s3)"
        by (cases "try_to_eval K epoch None (set_to_eval_mode K s2)")
      from try_to_eval_frame(3) [OF b] lt
      have "updates_in (trace s) < updates_in (trace s3)"
        by (simp add: set_to_eval_mode_def emit_def)
      with e c1 a Inr b show ?thesis
        by (cases r3) (simp_all add: online_epoch_def end_epoch_frame emit_def)
    qed
  }
  {
    assume pos: "0 < num_updates_per_train_call s"
    let ?n = "nat (num_env_steps_per_epoch s)"
    from batch_collects [OF mask, of ?n ob0 s1] obtain ob2 s2 where
      a: "batch_steps K ?n ob0 s1 = (Inr ob2, s2)"
      and n2: "samples_in (trace s2) = samples_in (trace s1) + ?n" by blast
    note f2 = batch_steps_frame [OF a]
    let ?t = "emit (Stamp ''sample'') s2"
    have t: "config ?t = config s" "samples_in (trace ?t) = ?n"
      "updates_in (trace ?t) = updates_in (trace s)"
      using f2 fe n2 empty1 by (simp_all add: emit_def config_def)
    have dev_t: "get_mode K = Some ''gpu_opt'' \<longrightarrow> gpu_id ?t \<noteq> None"
      using dev t(1) by (simp add: config_def)
    have ready: "min_num_steps_before_training ?t \<le> int (samples_in (trace ?t))"
      using dflt t by (simp add: config_def)
    have pos_t: "0 < num_updates_per_train_call ?t"
      using pos t(1) by (simp add: config_def)
    obtain r3 s3 where b: "try_to_train K ?t = (r3, s3)"
      by (cases "try_to_train K ?t")
    from counting_trains [OF cnt dev_t ready pos_t] b t(3)
    have lt: "updates_in (trace s) < updates_in (trace s3)" by simp
    show "updates_in (trace s) < updates_in (trace (snd (batch_epoch K epoch s)))"
    proof (cases r3)
      case (Inl x)
      with e c1 a b lt show ?thesis by (simp add: batch_epoch_def)
    next
      case (Inr u)
      let ?s4 = "set_to_eval_mode K (emit (Stamp ''train'') s3)"
      have lt4: "updates_in (trace s) < updates_in (trace ?s4)"
        using lt by (simp add: set_to_eval_mode_def emit_def)
      obtain r5 s5 where d: "try_to_eval K epoch None ?s4 = (r5, s5)"
        by (cases "try_to_eval K epoch None ?s4")
      from try_to_eval_frame(3) [OF d] lt4
      have lt5: "updates_in (trace s) < updates_in (trace s5)" by simp
      from e c1 a b Inr d lt4 lt5 show ?thesis
        by (cases r5)
           (auto simp: batch_epoch_def py_mod_def end_epoch_frame emit_def Let_def
             split: if_splits)
    qed
  }
qed

theorem first_epoch_training_witness:
  "(\<forall>tr. num_steps_can_sample plain_collab tr = int (samples_in tr))
   \<and> handle_step_takes_mask plain_collab
   \<and> get_mode plain_collab = None
   \<and> samples_in (trace small_state) = 0
   \<and> min_num_steps_before_training small_state = num_env_steps_per_epoch small_state
   \<and> samples_in (trace small_batch_state) = 0
   \<and> min_num_steps_before_training small_batch_state = num_env_steps_per_epoch small_batch_state
   \<and> updates_in (trace (snd (online_steps plain_collab 1 0 small_state)))
       = updates_in (trace small_state)
   \<and> updates_in (trace small_state)
       < updates_in (trace (snd (online_epoch plain_collab 0 small_state)))
   \<and> updates_in (trace small_batch_state)
       < updates_in (trace (snd (batch_epoch plain_collab 0 small_batch_state)))"
proof -
  have h: "\<forall>tr. num_steps_can_sample plain_collab tr = int (samples_in tr)"
    "handle_step_takes_mask plain_collab"
    and g: "get_mode plain_collab = None"
    by (simp_all add: plain_collab_def)
  from g have d: "get_mode plain_collab = Some ''gpu_opt'' \<longrightarrow> gpu_id s \<noteq> None" for s :: "nat rl"
    by simp
  have a: "samples_in (trace small_state) = 0"
    "min_num_steps_before_training small_state = num_env_steps_per_epoch small_state"
    and b: "samples_in (trace small_batch_state) = 0"
    "min_num_steps_before_training small_batch_state = num_env_steps_per_epoch small_batch_state"
    and n: "int 1 < num_env_steps_per_epoch small_state"
    "0 < num_env_steps_per_epoch small_state \<and> 0 < num_updates_per_train_call small_state"
    "0 < num_updates_per_train_call small_batch_state"
    by (simp_all add: small_batch_state_eq small_state_eq)
  note w1 = first_epoch_training [OF h d a, of 0]
  note w2 = first_epoch_training [OF h d b, of 0]
  from w1 n(1) have "updates_in (trace (snd (online_steps plain_collab 1 0 small_state)))
       = updates_in (trace small_state)" by blast
  moreover from w1 n(2) have "updates_in (trace small_state)
       < updates_in (trace (snd (online_epoch plain_collab 0 small_state)))" by blast
  moreover from w2 n(3) have "updates_in (trace small_batch_state)
       < updates_in (trace (snd (batch_epoch plain_collab 0 small_batch_state)))" by blast
  ultimately show ?thesis using h g a b by simp
qed

text \<open>
  The claim C2 as stated fails in both modes. The orchestrator is constructed with
  \<^verbatim>\<open>min_num_steps_before_training\<close> unset, two steps an epoch and one epoch, so that the
  run from epoch 0 is its first epoch; the replay buffer starts empty and counts its
  samples. The run returns normally and has performed one update.
\<close>

theorem first_epoch_counterexample:
  "init plain_collab small_args = Inr small_state
   \<and> arg_min_num_steps_before_training small_args = None
   \<and> num_epochs small_state = 1
   \<and> collection_mode small_state = ''online''
   \<and> fst (train plain_collab 0 small_state) = Inr ()
   \<and> updates_in (trace (snd (train plain_collab 0 small_state))) = 1
   \<and> n_train_steps_total (snd (train plain_collab 0 small_state)) = 1
   \<and> num_epochs small_batch_state = 1
   \<and> collection_mode small_batch_state = ''batch''
   \<and> min_num_steps_before_training small_batch_state = num_env_steps_per_epoch small_batch_state
   \<and> fst (train plain_collab 0 small_batch_state) = Inr ()
   \<and> updates_in (trace (snd (train plain_collab 0 small_batch_state))) = 1
   \<and> n_train_steps_total (snd (train plain_collab 0 small_batch_state)) = 1"
proof -
  have "init plain_collab small_args = Inr small_state"
    by (simp add: small_state_def init_def plain_collab_def small_args_def default_args_def
        py_mod_def)
  moreover have "arg_min_num_steps_before_training small_args = None"
    by (simp add: small_args_def default_args_def)
  moreover have "updates_in (trace (snd (train plain_collab 0 small_state))) = 1"
    "n_train_steps_total (snd (train plain_collab 0 small_state)) = 1"
    by (simp_all add: small_online_train small_online_epoch)
  moreover have "updates_in (trace (snd (train plain_collab 0 small_batch_state))) = 1"
    "n_train_steps_total (snd (train plain_collab 0 small_batch_state)) = 1"
    by (simp_all add: small_batch_train small_batch_epoch)
  ultimately show ?thesis
    by (simp add: small_online_train small_batch_train) (simp add: small_batch_state_eq small_state_eq)
qed

text \<open>
  C7, as amended. In the mode \<^verbatim>\<open>gpu_opt\<close>, a call of \<^verbatim>\<open>_try_to_train\<close> that has moved
  the trainable components to the accelerator of this rank has moved them back to the
  CPU when it returns normally, whether it trained or not. The method has no
  \<^verbatim>\<open>try\<close>: when an update operation raises, the exception leaves the method and the
  components are still on the accelerator.
\<close>

theorem try_to_train_device:
  assumes mode: "get_mode K = Some ''gpu_opt''" and gid: "gpu_id s = Some g"
  shows "(fst (try_to_train K s) = Inr ()
            \<longrightarrow> resident (trace (snd (try_to_train K s))) = Cpu)
       \<and> (fst (try_to_train K s) \<noteq> Inr ()
            \<longrightarrow> resident (trace (snd (try_to_train K s))) = Cuda g)"
proof -
  let ?s1 = "emit (To (Cuda g)) (emit (SetDevice (Cuda g)) s)"
  let ?s2 = "emit NumStepsCanSample ?s1"
  have acq: "acquire_device K s = (Inr (), ?s1)"
    using mode gid by (simp add: acquire_device_def)
  show ?thesis
  proof (cases "fst (can_train K ?s1)")
    case False
    then have "try_to_train K s = release_device K ?s2"
      using acq by (simp add: try_to_train_def can_train_def)
    then show ?thesis using mode by (simp add: release_device_def emit_def)
  next
    case True
    let ?b = "update_burst K (nat (num_updates_per_train_call ?s2)) (emit (TrainingMode True) ?s2)"
    obtain x s3 where b: "?b = (x, s3)" by (cases ?b)
    from update_burst_frame [OF b] have r3: "resident (trace s3) = Cuda g"
      by (simp add: emit_def)
    show ?thesis
    proof (cases x)
      case (Inl e)
      with b True acq r3 show ?thesis
        by (simp add: try_to_train_def can_train_def)
    next
      case (Inr u)
      with b True acq mode show ?thesis
        by (simp add: try_to_train_def can_train_def release_device_def emit_def)
    qed
  qed
qed

theorem try_to_train_device_witness:
  "get_mode failing_collab = Some ''gpu_opt'' \<and> gpu_id gpu_state = Some 0
   \<and> fst (try_to_train failing_collab gpu_state) \<noteq> Inr ()
   \<and> resident (trace (snd (try_to_train failing_collab gpu_state))) = Cuda 0
   \<and> get_mode gpu_collab = Some ''gpu_opt''
   \<and> fst (try_to_train gpu_collab gpu_state) = Inr ()
   \<and> resident (trace (snd (try_to_train gpu_collab gpu_state))) = Cpu"
proof -
  have m: "get_mode failing_collab = Some ''gpu_opt''" "get_mode gpu_collab = Some ''gpu_opt''"
    by (simp_all add: failing_collab_def gpu_collab_def)
  have g: "gpu_id gpu_state = Some 0"
    by (simp add: gpu_state_eq)
  have f: "fst (try_to_train failing_collab gpu_state) \<noteq> Inr ()"
    by (simp add: failing_run)
  have ok: "fst (try_to_train gpu_collab gpu_state) = Inr ()"
    by (simp add: try_to_train_def acquire_device_def release_device_def can_train_def
        do_training_call_def gpu_collab_def plain_collab_def gpu_state_eq small_state_eq emit_def)
  from try_to_train_device [OF m(1) g] try_to_train_device [OF m(2) g] m g f ok
  show ?thesis by simp
qed

text \<open>
  The claim C7 as stated fails where an update raises: on rank 0 in the mode
  \<^verbatim>\<open>gpu_opt\<close>, with a buffer that is ready, the first update raises, the training phase
  exits with that exception, and the components are on the accelerator \<^verbatim>\<open>cuda:0\<close>.
\<close>

theorem release_on_failure_counterexample:
  "get_mode failing_collab = Some ''gpu_opt''
   \<and> fst (try_to_train failing_collab gpu_state) = Inl UpdateError
   \<and> new_events gpu_state (snd (try_to_train failing_collab gpu_state)) =
       [SetDevice (Cuda 0), To (Cuda 0), NumStepsCanSample, TrainingMode True, DoTraining]
   \<and> resident (trace (snd (try_to_train failing_collab gpu_state))) = Cuda 0"
  by (simp add: failing_run)
     (simp add: failing_collab_def gpu_collab_def gpu_state_eq small_state_eq new_events_def
        resident_def)

section \<open>Environment steps and rollouts\<close>

text \<open>
  C3. Take a call of \<^verbatim>\<open>_take_step_in_env\<close> whose step has been recorded (\<open>sample_step\<close>
  returns: the \<^verbatim>\<open>_handle_step\<close> of the running class takes the keyword \<^verbatim>\<open>mask\<close>), with
  \<open>term\<close> the terminal flag of the step and \<open>next_ob\<close> its next observation. The
  trajectory in progress has grown by this step. The rollout ends (the rollout counter
  goes up by one and the replay buffer is told of the episode boundary) if and only if
  \<open>term\<close> holds or the length of the trajectory in progress has reached
  \<^verbatim>\<open>max_path_length\<close>. When it ends, the calls after the step are
  \<^verbatim>\<open>terminate_episode\<close>, the policy's \<^verbatim>\<open>reset\<close> and the environment's \<^verbatim>\<open>reset\<close>, and the
  observation returned is what that \<^verbatim>\<open>reset\<close> answers, not \<open>next_ob\<close>; otherwise it is
  \<open>next_ob\<close> and nothing else happens.
\<close>

theorem take_step_rollout_end:
  assumes step: "sample_step K ob s = (Inr (next_ob, term), s5)"
  shows "\<exists>ob' s'. take_step_in_env K ob s = (Inr ob', s')
     \<and> length (current_path_builder s5) = length (current_path_builder s) + 1
     \<and> (n_rollouts_total s' = n_rollouts_total s + 1
          \<longleftrightarrow> term \<or> max_path_length s \<le> int (length (current_path_builder s5)))
     \<and> (TerminateEpisode \<in> set (new_events s5 s')
          \<longleftrightarrow> term \<or> max_path_length s \<le> int (length (current_path_builder s5)))
     \<and> (if term \<or> max_path_length s \<le> int (length (current_path_builder s5))
         then (ob', s') = start_new_rollout K (handle_rollout_ending s5)
              \<and> new_events s5 s' = [TerminateEpisode, PolicyReset, EnvReset]
              \<and> ob' = env_reset K (butlast (trace s'))
         else ob' = next_ob \<and> s' = s5 \<and> n_rollouts_total s' = n_rollouts_total s)"
proof -
  note f = sample_step_fields [OF step]
  show ?thesis
  proof (cases "term \<or> max_path_length s \<le> int (length (current_path_builder s5))")
    case True
    obtain ob' s' where r: "start_new_rollout K (handle_rollout_ending s5) = (ob', s')"
      by (cases "start_new_rollout K (handle_rollout_ending s5)")
    have t: "take_step_in_env K ob s = (Inr ob', s')"
      using step True r f(2) by (auto simp: take_step_in_env_def)
    have tr: "trace s' = trace s5 @ [TerminateEpisode, PolicyReset, EnvReset]"
      and ob: "ob' = env_reset K (trace s5 @ [TerminateEpisode, PolicyReset])"
      and n: "n_rollouts_total s' = n_rollouts_total s5 + 1"
      using r by (auto simp: start_new_rollout_def handle_rollout_ending_def emit_def Let_def)
    have "new_events s5 s' = [TerminateEpisode, PolicyReset, EnvReset]"
      by (simp add: new_events_def tr)
    moreover have "ob' = env_reset K (butlast (trace s'))"
      by (simp add: tr ob butlast_append)
    ultimately show ?thesis using True t r n f by auto
  next
    case False
    then have t: "take_step_in_env K ob s = (Inr next_ob, s5)"
      using step f(2) by (auto simp: take_step_in_env_def)
    with False f show ?thesis by auto
  qed
qed

theorem take_step_rollout_end_witness:
  "sample_step plain_collab 0 small_state = (Inr (0, False), stepped small_state)
   \<and> take_step_in_env plain_collab 0 small_state = (Inr 0, stepped small_state)
   \<and> sample_step plain_collab 0 (small_state\<lparr>max_path_length := 1\<rparr>)
       = (Inr (0, False), stepped (small_state\<lparr>max_path_length := 1\<rparr>))
   \<and> n_rollouts_total (snd (take_step_in_env plain_collab 0 (small_state\<lparr>max_path_length := 1\<rparr>)))
       = 1
   \<and> new_events (stepped (small_state\<lparr>max_path_length := 1\<rparr>))
        (snd (take_step_in_env plain_collab 0 (small_state\<lparr>max_path_length := 1\<rparr>)))
       = [TerminateEpisode, PolicyReset, EnvReset]"
proof -
  have a: "sample_step plain_collab 0 small_state = (Inr (0, False), stepped small_state)"
    using sample_step_example [of 3] by (simp add: small_state_eq)
  have b: "sample_step plain_collab 0 (small_state\<lparr>max_path_length := 1\<rparr>)
       = (Inr (0, False), stepped (small_state\<lparr>max_path_length := 1\<rparr>))"
    by (rule sample_step_example)
  from take_step_rollout_end [OF a] take_step_rollout_end [OF b] a b
  show ?thesis
    by (auto simp: small_state_eq stepped_def)
qed

text \<open>
  C4. Every call of \<^verbatim>\<open>_handle_rollout_ending\<close> raises the rollout counter by exactly one
  and tells the replay buffer of the episode boundary, and that is its only call. It
  appends a trajectory to the exploration paths, the stacked trajectory in progress, if
  and only if that trajectory is not empty; with an empty one the exploration paths stay
  as they are. The trajectory in progress is empty afterwards.
\<close>

theorem handle_rollout_ending_effect:
  "n_rollouts_total (handle_rollout_ending s) = n_rollouts_total s + 1
   \<and> new_events s (handle_rollout_ending s) = [TerminateEpisode]
   \<and> current_path_builder (handle_rollout_ending s) = []
   \<and> (length (exploration_paths (handle_rollout_ending s)) = length (exploration_paths s) + 1
       \<longleftrightarrow> current_path_builder s \<noteq> [])
   \<and> (exploration_paths (handle_rollout_ending s) =
        (if current_path_builder s \<noteq> []
         then exploration_paths s @ [get_all_stacked (current_path_builder s)]
         else exploration_paths s))"
  by (simp add: handle_rollout_ending_def emit_def Let_def new_events_def)

theorem handle_rollout_ending_effect_witness:
  "n_rollouts_total (handle_rollout_ending small_state) = 1
   \<and> exploration_paths (handle_rollout_ending small_state) = []
   \<and> n_rollouts_total (handle_rollout_ending (stepped small_state)) = 1
   \<and> exploration_paths (handle_rollout_ending (stepped small_state))
       = [get_all_stacked [a_transition]]
   \<and> current_path_builder (handle_rollout_ending (stepped small_state)) = []"
  using handle_rollout_ending_effect [of small_state]
    handle_rollout_ending_effect [of "stepped small_state"]
  by (simp add: small_state_eq stepped_def)

section \<open>The two collection modes\<close>

text \<open>
  C5. Whether an epoch returns or raises, the schedule it adds to the history is an
  initial part of the following one, and it is the whole of it when the epoch returns
  normally. In an online epoch: for each of the \<^verbatim>\<open>num_env_steps_per_epoch\<close> iterations,
  one environment step, the stamp \<^verbatim>\<open>'sample'\<close>, one training phase (it asks the replay
  buffer once) and the stamp \<^verbatim>\<open>'train'\<close>; then the stamp \<^verbatim>\<open>'eval'\<close> and the question of
  \<^verbatim>\<open>_end_epoch\<close>. In a batch epoch: all \<^verbatim>\<open>num_env_steps_per_epoch\<close> environment steps,
  then the stamp \<^verbatim>\<open>'sample'\<close>, one training phase and the stamp \<^verbatim>\<open>'train'\<close>; then the
  stamp \<^verbatim>\<open>'eval'\<close> on the epochs that evaluate, and the question of \<^verbatim>\<open>_end_epoch\<close>.
\<close>

theorem collection_schedule:
  "prefix (schedule (trace (snd (online_epoch K epoch s))))
     (schedule (trace s)
      @ concat (replicate (nat (num_env_steps_per_epoch s))
                  [StepTaken, Stamped ''sample'', BufferAsked, Stamped ''train''])
      @ [Stamped ''eval'', BufferAsked])
   \<and> (fst (online_epoch K epoch s) = Inr () \<longrightarrow>
      schedule (trace (snd (online_epoch K epoch s))) = schedule (trace s)
        @ concat (replicate (nat (num_env_steps_per_epoch s))
                    [StepTaken, Stamped ''sample'', BufferAsked, Stamped ''train''])
        @ [Stamped ''eval'', BufferAsked])
   \<and> prefix (schedule (trace (snd (batch_epoch K epoch s))))
     (schedule (trace s)
      @ replicate (nat (num_env_steps_per_epoch s)) StepTaken
      @ [Stamped ''sample'', BufferAsked, Stamped ''train'']
      @ (if epoch mod num_epochs_per_eval s = 0 then [Stamped ''eval''] else [])
      @ [BufferAsked])
   \<and> (fst (batch_epoch K epoch s) = Inr () \<longrightarrow>
      schedule (trace (snd (batch_epoch K epoch s))) = schedule (trace s)
        @ replicate (nat (num_env_steps_per_epoch s)) StepTaken
        @ [Stamped ''sample'', BufferAsked, Stamped ''train'']
        @ (if epoch mod num_epochs_per_eval s = 0 then [Stamped ''eval''] else [])
        @ [BufferAsked])"
proof (intro conjI impI)
  show "prefix (schedule (trace (snd (online_epoch K epoch s))))
     (schedule (trace s)
      @ concat (replicate (nat (num_env_steps_per_epoch s))
                  [StepTaken, Stamped ''sample'', BufferAsked, Stamped ''train''])
      @ [Stamped ''eval'', BufferAsked])"
    by (rule online_epoch_prefix)
  show "prefix (schedule (trace (snd (batch_epoch K epoch s))))
     (schedule (trace s)
      @ replicate (nat (num_env_steps_per_epoch s)) StepTaken
      @ [Stamped ''sample'', BufferAsked, Stamped ''train'']
      @ (if epoch mod num_epochs_per_eval s = 0 then [Stamped ''eval''] else [])
      @ [BufferAsked])"
    by (rule batch_epoch_prefix)
  obtain ob s1 where e: "start_new_rollout K (set_to_train_mode K (start_epoch epoch s)) = (ob, s1)"
    by (cases "start_new_rollout K (set_to_train_mode K (start_epoch epoch s))")
  note fe = epoch_entry_frame [OF e]
  have n1: "num_env_steps_per_epoch s1 = num_env_steps_per_epoch s"
    using fe(1) by (simp add: config_def)
  {
    assume "fst (online_epoch K epoch s) = Inr ()"
    then obtain s' where run: "online_epoch K epoch s = (Inr (), s')"
      by (cases "online_epoch K epoch s") simp
    from run e n1 obtain ob2 s2 u s3 where
      a: "online_steps K (nat (num_env_steps_per_epoch s)) ob s1 = (Inr ob2, s2)"
      and b: "try_to_eval K epoch None (set_to_eval_mode K s2) = (Inr u, s3)"
      and c: "s' = end_epoch K epoch (emit (Stamp ''eval'') s3)"
      by (auto simp: online_epoch_def split: and_then_split_asm)
    have "schedule (trace s3) = schedule (trace s2)"
      using try_to_eval_frame(2) [OF b] by (simp add: set_to_eval_mode_def emit_def)
    with online_steps_schedule [OF a] fe(2) c run
    show "schedule (trace (snd (online_epoch K epoch s))) = schedule (trace s)
        @ concat (replicate (nat (num_env_steps_per_epoch s))
                    [StepTaken, Stamped ''sample'', BufferAsked, Stamped ''train''])
        @ [Stamped ''eval'', BufferAsked]"
      by (simp add: end_epoch_frame emit_def)
  }
  {
    assume "fst (batch_epoch K epoch s) = Inr ()"
    then obtain s' where run: "batch_epoch K epoch s = (Inr (), s')"
      by (cases "batch_epoch K epoch s") simp
    from run e n1 obtain ob2 s2 u s3 where
      a: "batch_steps K (nat (num_env_steps_per_epoch s)) ob s1 = (Inr ob2, s2)"
      and b: "try_to_train K (emit (Stamp ''sample'') s2) = (Inr u, s3)"
      by (auto simp: batch_epoch_def split: and_then_split_asm)
    let ?s4 = "set_to_eval_mode K (emit (Stamp ''train'') s3)"
    have c3: "config s3 = config s"
      using try_to_train_frame(1) [OF b] batch_steps_frame [OF a] fe(1)
      by (simp add: config_def emit_def)
    then have pe: "num_epochs_per_eval ?s4 = num_epochs_per_eval s"
      by (simp add: config_def set_to_eval_mode_def emit_def)
    have sch4: "schedule (trace ?s4) = schedule (trace s)
        @ replicate (nat (num_env_steps_per_epoch s)) StepTaken
        @ [Stamped ''sample'', BufferAsked, Stamped ''train'']"
      using batch_steps_schedule [OF a] try_to_train_schedule [OF b] fe(2)
      by (simp add: set_to_eval_mode_def emit_def)
    from run e n1 a b pe have nz: "num_epochs_per_eval s \<noteq> 0"
      by (auto simp: batch_epoch_def py_mod_def Let_def split: and_then_split_asm if_splits)
    have "schedule (trace s') = schedule (trace s)
        @ replicate (nat (num_env_steps_per_epoch s)) StepTaken
        @ [Stamped ''sample'', BufferAsked, Stamped ''train'']
        @ (if epoch mod num_epochs_per_eval s = 0 then [Stamped ''eval''] else [])
        @ [BufferAsked]"
    proof (cases "epoch mod num_epochs_per_eval s = 0")
      case True
      with run e n1 a b pe nz obtain u5 s5 where
        d: "try_to_eval K epoch None ?s4 = (Inr u5, s5)"
        and f: "s' = end_epoch K epoch (emit (Stamp ''eval'') s5)"
        by (auto simp: batch_epoch_def py_mod_def Let_def split: and_then_split_asm)
      from try_to_eval_frame(2) [OF d] sch4 f True show ?thesis
        by (simp add: end_epoch_frame emit_def)
    next
      case False
      with run e n1 a b pe nz have "s' = end_epoch K epoch ?s4"
        by (auto simp: batch_epoch_def py_mod_def Let_def split: and_then_split_asm)
      with sch4 False show ?thesis
        by (simp add: end_epoch_frame)
    qed
    with run show "schedule (trace (snd (batch_epoch K epoch s))) = schedule (trace s)
        @ replicate (nat (num_env_steps_per_epoch s)) StepTaken
        @ [Stamped ''sample'', BufferAsked, Stamped ''train'']
        @ (if epoch mod num_epochs_per_eval s = 0 then [Stamped ''eval''] else [])
        @ [BufferAsked]" by simp
  }
qed

theorem collection_schedule_witness:
  "fst (online_epoch plain_collab 0 small_state) = Inr ()
   \<and> schedule (trace (snd (online_epoch plain_collab 0 small_state))) =
       [StepTaken, Stamped ''sample'', BufferAsked, Stamped ''train'',
        StepTaken, Stamped ''sample'', BufferAsked, Stamped ''train'',
        Stamped ''eval'', BufferAsked]
   \<and> fst (batch_epoch plain_collab 0 small_batch_state) = Inr ()
   \<and> schedule (trace (snd (batch_epoch plain_collab 0 small_batch_state))) =
       [StepTaken, StepTaken, Stamped ''sample'', BufferAsked, Stamped ''train'',
        Stamped ''eval'', BufferAsked]"
proof -
  have o: "fst (online_epoch plain_collab 0 small_state) = Inr ()"
    and b: "fst (batch_epoch plain_collab 0 small_batch_state) = Inr ()"
    by (simp_all add: small_online_epoch small_batch_epoch)
  have c: "schedule (trace small_state) = []" "schedule (trace small_batch_state) = []"
    "nat (num_env_steps_per_epoch small_state) = Suc (Suc 0)"
    "nat (num_env_steps_per_epoch small_batch_state) = Suc (Suc 0)"
    "num_epochs_per_eval small_batch_state = 10"
    by (simp_all add: small_batch_state_eq small_state_eq)
  from collection_schedule [of plain_collab 0 small_state]
    collection_schedule [of plain_collab 0 small_batch_state] o b c
  show ?thesis by simp
qed

section \<open>The evaluation phase\<close>

text \<open>
  C6. Take a call of \<^verbatim>\<open>_try_to_eval\<close> whose persistence lines 291 to 299 do not raise.
  The evaluation runs (once) if and only if the exploration paths of this epoch are not
  empty and \<^verbatim>\<open>need_to_update_eval_statistics\<close> is false; otherwise none runs. When it
  has run, whether the report row was then emitted or refused, the flag is true again
  and \<^verbatim>\<open>_can_evaluate\<close> is false, so that a further call of \<^verbatim>\<open>_try_to_eval\<close>, for any
  epoch and any collaborators, runs no evaluation before the flag has been cleared.
\<close>

theorem try_to_eval_gate:
  assumes chk: "save_checkpoints K epoch s = (Inr (), s0)"
  shows "(evaluations_in (trace (snd (try_to_eval K epoch ep s))) = evaluations_in (trace s) + 1
            \<longleftrightarrow> exploration_paths s \<noteq> [] \<and> \<not> need_to_update_eval_statistics s)
       \<and> (evaluations_in (trace (snd (try_to_eval K epoch ep s))) = evaluations_in (trace s)
            \<longleftrightarrow> \<not> (exploration_paths s \<noteq> [] \<and> \<not> need_to_update_eval_statistics s))
       \<and> (exploration_paths s \<noteq> [] \<and> \<not> need_to_update_eval_statistics s \<longrightarrow>
            need_to_update_eval_statistics (snd (try_to_eval K epoch ep s))
            \<and> \<not> can_evaluate (snd (try_to_eval K epoch ep s))
            \<and> (\<forall>K' epoch' ep'.
                  evaluations_in
                    (trace (snd (try_to_eval K' epoch' ep' (snd (try_to_eval K epoch ep s)))))
                  = evaluations_in (trace (snd (try_to_eval K epoch ep s)))))"
proof -
  note f = save_checkpoints_frame [OF chk]
  show ?thesis
  proof (cases "can_evaluate s")
    case False
    with try_to_eval_skip [OF False, of K epoch ep] show ?thesis
      by (auto simp: can_evaluate_def)
  next
    case True
    with f have c0: "can_evaluate s0" by (simp add: can_evaluate_def)
    have need: "need_to_update_eval_statistics (snd (try_to_eval K epoch ep s))"
      using chk c0 report_row_frame(2) [of K epoch ep s0]
      by (simp add: try_to_eval_def emit_def Let_def)
    then have nc: "\<not> can_evaluate (snd (try_to_eval K epoch ep s))"
      by (simp add: can_evaluate_def)
    have ev: "evaluations_in (trace (snd (try_to_eval K epoch ep s)))
              = evaluations_in (trace s) + 1"
      using chk c0 report_row_frame(8) [of K epoch ep s0] f(7)
      by (simp add: try_to_eval_def emit_def Let_def)
    from True need nc ev try_to_eval_skip [OF nc] show ?thesis
      by (simp add: can_evaluate_def)
  qed
qed

theorem try_to_eval_gate_witness:
  "save_checkpoints plain_collab 0 (eval_ready report_keys) = (Inr (), eval_ready report_keys)
   \<and> exploration_paths (eval_ready report_keys) \<noteq> []
   \<and> \<not> need_to_update_eval_statistics (eval_ready report_keys)
   \<and> evaluations_in (trace (snd (try_to_eval plain_collab 0 None (eval_ready report_keys)))) = 1
   \<and> need_to_update_eval_statistics (snd (try_to_eval plain_collab 0 None (eval_ready report_keys)))
   \<and> evaluations_in
        (trace (snd (try_to_eval plain_collab 1 None
                       (snd (try_to_eval plain_collab 0 None (eval_ready report_keys)))))) = 1"
proof -
  have e: "exploration_paths (eval_ready report_keys) \<noteq> []"
    "\<not> need_to_update_eval_statistics (eval_ready report_keys)"
    "evaluations_in (trace (eval_ready report_keys)) = 0"
    by (simp_all add: eval_ready_def small_state_eq)
  from try_to_eval_gate [OF eval_ready_checkpoints [of 0 report_keys], of None] e
    eval_ready_checkpoints [of 0 report_keys]
  show ?thesis by simp
qed

text \<open>
  C8. Take an evaluation that is due (\<^verbatim>\<open>_can_evaluate\<close> holds and lines 291 to 299 do not
  raise) after a first report row has put the key set \<open>keys\<close> on record. If the set of
  keys recorded for this epoch differs from \<open>keys\<close>, \<^verbatim>\<open>_try_to_eval\<close> raises
  \<^verbatim>\<open>NotImplementedError\<close>, no row is emitted and the key set on record stays. If the
  sets are the same, the row is emitted by \<^verbatim>\<open>dump_tabular\<close> and the key set on record is
  that of this epoch.
\<close>

theorem try_to_eval_table_keys:
  assumes chk: "save_checkpoints K epoch s = (Inr (), s0)"
    and can: "can_evaluate s"
    and old: "old_table_keys s = Some keys"
  shows "(get_table_key_set (trace (report_row K epoch ep s0)) \<noteq> keys \<longrightarrow>
            fst (try_to_eval K epoch ep s) = Inl NotImplementedError
            \<and> rows_in (trace (snd (try_to_eval K epoch ep s))) = rows_in (trace s)
            \<and> old_table_keys (snd (try_to_eval K epoch ep s)) = Some keys)
       \<and> (get_table_key_set (trace (report_row K epoch ep s0)) = keys \<longrightarrow>
            try_to_eval K epoch ep s =
              (Inr (), emit DumpTabular (emit GetTableKeySet (report_row K epoch ep s0)))
            \<and> rows_in (trace (snd (try_to_eval K epoch ep s))) = rows_in (trace s) + 1
            \<and> old_table_keys (snd (try_to_eval K epoch ep s))
                = Some (get_table_key_set (trace (report_row K epoch ep s0))))"
proof -
  note f = save_checkpoints_frame [OF chk]
  from can f have c0: "can_evaluate s0" by (simp add: can_evaluate_def)
  let ?r = "report_row K epoch ep s0"
  have o: "old_table_keys ?r = Some keys"
    using f old by (simp add: report_row_frame)
  have rw: "rows_in (trace ?r) = rows_in (trace s)"
    using f by (simp add: report_row_frame)
  show ?thesis
  proof (cases "get_table_key_set (trace ?r) = keys")
    case True
    have "try_to_eval K epoch ep s
          = (Inr (), emit DumpTabular ((emit GetTableKeySet ?r)\<lparr>old_table_keys := Some keys\<rparr>))"
      using chk c0 o True
      by (simp add: try_to_eval_def table_keys_after_asking Let_def) (simp add: emit_def)
    moreover have "(emit GetTableKeySet ?r)\<lparr>old_table_keys := Some keys\<rparr> = emit GetTableKeySet ?r"
      using o by (simp add: emit_def)
    ultimately show ?thesis using True rw o by (simp add: emit_def)
  next
    case False
    have "try_to_eval K epoch ep s
          = (Inl NotImplementedError,
             emit UpdateHeader
               (emit (Print ''Table keys have changed. Rewriting header and filling with 0s'')
                  (emit GetTableKeySet ?r)))"
      using chk c0 o False
      by (simp add: try_to_eval_def table_keys_after_asking Let_def) (auto simp add: emit_def)
    then show ?thesis using False rw o by (simp add: emit_def)
  qed
qed

theorem try_to_eval_table_keys_witness:
  "save_checkpoints plain_collab 0 (eval_ready report_keys) = (Inr (), eval_ready report_keys)
   \<and> can_evaluate (eval_ready report_keys)
   \<and> old_table_keys (eval_ready report_keys) = Some report_keys
   \<and> fst (try_to_eval plain_collab 0 None (eval_ready report_keys)) = Inr ()
   \<and> rows_in (trace (snd (try_to_eval plain_collab 0 None (eval_ready report_keys)))) = 1
   \<and> save_checkpoints plain_collab 0 (eval_ready {''Epoch''}) = (Inr (), eval_ready {''Epoch''})
   \<and> can_evaluate (eval_ready {''Epoch''})
   \<and> old_table_keys (eval_ready {''Epoch''}) = Some {''Epoch''}
   \<and> fst (try_to_eval plain_collab 0 None (eval_ready {''Epoch''})) = Inl NotImplementedError
   \<and> rows_in (trace (snd (try_to_eval plain_collab 0 None (eval_ready {''Epoch''})))) = 0"
proof -
  have c: "can_evaluate (eval_ready keys)" for keys
    by (simp add: can_evaluate_def eval_ready_def small_state_eq)
  have o: "old_table_keys (eval_ready keys) = Some keys" for keys
    by (simp add: eval_ready_def)
  have r: "rows_in (trace (eval_ready keys)) = 0" for keys
    by (simp add: eval_ready_def small_state_eq)
  from try_to_eval_table_keys [OF eval_ready_checkpoints [of 0 report_keys] c o, of None]
    try_to_eval_table_keys [OF eval_ready_checkpoints [of 0 "{''Epoch''}"] c o, of None]
    report_row_example_keys report_keys_not_epoch c o r eval_ready_checkpoints
  show ?thesis by auto
qed

section \<open>Construction\<close>

text \<open>
  C9, as amended. \<^verbatim>\<open>__init__\<close> raises exactly when one of these holds: the collection
  mode is neither \<^verbatim>\<open>'online'\<close> nor \<^verbatim>\<open>'batch'\<close>; it is \<^verbatim>\<open>'batch'\<close> and
  \<^verbatim>\<open>num_updates_per_epoch\<close> is \<^verbatim>\<open>None\<close>; MPI is there, \<^verbatim>\<open>ptu.get_mode()\<close> is true and
  \<^verbatim>\<open>num_gpus\<close> is 0 (the rank is taken modulo 0); \<^verbatim>\<open>num_epochs_per_eval\<close> is 0 (the
  assertion takes a remainder modulo 0); or \<^verbatim>\<open>num_epochs_per_param_save\<close> is not a
  multiple of \<^verbatim>\<open>num_epochs_per_eval\<close>.
\<close>

theorem init_fails_iff:
  "isl (init K a) \<longleftrightarrow>
     arg_collection_mode a \<notin> {''online'', ''batch''}
     \<or> (arg_collection_mode a = ''batch'' \<and> arg_num_updates_per_epoch a = None)
     \<or> (mpi_rank K \<noteq> None \<and> truthy (get_mode K) \<and> arg_num_gpus a = 0)
     \<or> arg_num_epochs_per_eval a = 0
     \<or> \<not> arg_num_epochs_per_eval a dvd arg_num_epochs_per_param_save a"
  by (auto simp: init_def py_mod_def mod_eq_0_iff_dvd split: option.splits sum.splits if_splits)

theorem init_fails_iff_witness:
  "isl (init plain_collab
          (default_args\<lparr>arg_num_epochs_per_eval := 10, arg_num_epochs_per_param_save := 25\<rparr>))
   \<and> \<not> isl (init plain_collab
          (default_args\<lparr>arg_num_epochs_per_eval := 10, arg_num_epochs_per_param_save := 100\<rparr>))
   \<and> isl (init plain_collab (default_args\<lparr>arg_collection_mode := ''batch''\<rparr>))
   \<and> isl (init plain_collab (default_args\<lparr>arg_collection_mode := ''offline''\<rparr>))"
  using
    init_fails_iff [of plain_collab
      "default_args\<lparr>arg_num_epochs_per_eval := 10, arg_num_epochs_per_param_save := 25\<rparr>"]
    init_fails_iff [of plain_collab
      "default_args\<lparr>arg_num_epochs_per_eval := 10, arg_num_epochs_per_param_save := 100\<rparr>"]
    init_fails_iff [of plain_collab "default_args\<lparr>arg_collection_mode := ''batch''\<rparr>"]
    init_fails_iff [of plain_collab "default_args\<lparr>arg_collection_mode := ''offline''\<rparr>"]
  by (simp add: default_args_def plain_collab_def)

text \<open>
  The claim C9 as stated fails on rank 0 in the mode \<^verbatim>\<open>gpu_opt\<close> with \<^verbatim>\<open>num_gpus = 0\<close>
  and every other argument at its default: the mode is \<^verbatim>\<open>'online'\<close> and 100 is a
  multiple of 10, yet \<^verbatim>\<open>__init__\<close> raises \<^verbatim>\<open>ZeroDivisionError\<close>.
\<close>

theorem init_exactly_counterexample:
  "init gpu_collab (default_args\<lparr>arg_num_gpus := 0\<rparr>) = (Inl ZeroDivisionError :: exc + nat rl)
   \<and> arg_collection_mode (default_args\<lparr>arg_num_gpus := 0\<rparr>) = ''online''
   \<and> arg_num_epochs_per_eval (default_args\<lparr>arg_num_gpus := 0\<rparr>) = 10
   \<and> arg_num_epochs_per_param_save (default_args\<lparr>arg_num_gpus := 0\<rparr>) = 100"
  by (simp add: init_def py_mod_def truthy_def gpu_collab_def plain_collab_def default_args_def)

section \<open>Persistence without MPI\<close>

text \<open>
  C10. When \<^verbatim>\<open>MPI\<close> is \<^verbatim>\<open>None\<close>, neither \<^verbatim>\<open>_try_to_eval\<close> nor \<^verbatim>\<open>train\<close> persists
  anything, for every epoch, every start epoch, every state and whatever the other
  collaborators answer, and whether the call returns or raises: the history holds the
  same calls of \<^verbatim>\<open>save_extra_data\<close> and \<^verbatim>\<open>save_itr_params\<close> after the call as before.
\<close>

theorem no_mpi_no_persistence:
  assumes "mpi_rank K = None"
  shows "persisted (trace (snd (try_to_eval K epoch ep s))) = persisted (trace s)
       \<and> persisted (trace (snd (train K start s))) = persisted (trace s)"
proof
  show "persisted (trace (snd (try_to_eval K epoch ep s))) = persisted (trace s)"
    using try_to_eval_persisted [OF assms, of epoch ep s]
    by (cases "try_to_eval K epoch ep s") simp
next
  let ?s4 = "train_setup K start s"
  have p4: "persisted (trace ?s4) = persisted (trace s)"
    using assms by (rule train_setup_persisted)
  have on: "persisted (trace (snd (train_online K start ?s4))) = persisted (trace s)"
    using run_epochs_persisted [of "online_epoch K", OF online_epoch_persisted [OF assms]] p4
    by (cases "train_online K start ?s4") (auto simp: train_online_def)
  have ba: "persisted (trace (snd (train_batch K start ?s4))) = persisted (trace s)"
    using run_epochs_persisted [of "batch_epoch K", OF batch_epoch_persisted [OF assms]] p4
    by (cases "train_batch K start ?s4") (auto simp: train_batch_def)
  from on ba p4 show "persisted (trace (snd (train K start s))) = persisted (trace s)"
    by (simp add: train_def Let_def)
qed

theorem no_mpi_no_persistence_witness:
  "mpi_rank plain_collab = None
   \<and> persisted (trace (snd (try_to_eval plain_collab 0 None small_state))) = []
   \<and> persisted (trace (snd (train plain_collab 0 small_state))) = []"
proof -
  have m: "mpi_rank plain_collab = None" by (simp add: plain_collab_def)
  have p: "persisted (trace small_state) = []" by (simp add: small_state_eq)
  from no_mpi_no_persistence [OF m, of 0 None small_state 0] m p show ?thesis by simp
qed

end
